theory Spec2Isabelle
  imports Main "HOL-Library.Word"
begin

section \<open>Strings of the source language\<close>

text \<open>
  A string of the source is a sequence of UTF-16 code units. String literals of the source
  are written \<open>js ''...''\<close>; a character outside ASCII is given by its code unit.
\<close>

type_synonym jschar = "16 word"
type_synonym jsstring = "jschar list"

definition js :: "string \<Rightarrow> jsstring" where
  "js s = map of_char s"

text \<open>
  \<open>String.prototype.trim\<close> strips the white space and line terminator code points of
  ECMAScript from both ends: TAB, LF, VT, FF, CR, SP, NBSP, the other space separators
  (U+1680, U+2000 to U+200A, U+202F, U+205F, U+3000), LS, PS and ZWNBSP.
\<close>

definition isWhiteSpace :: "jschar \<Rightarrow> bool" where
  "isWhiteSpace c \<longleftrightarrow>
     c = 0x9 \<or> c = 0xA \<or> c = 0xB \<or> c = 0xC \<or> c = 0xD \<or> c = 0x20 \<or> c = 0xA0 \<or>
     c = 0x1680 \<or> (0x2000 \<le> c \<and> c \<le> 0x200A) \<or> c = 0x2028 \<or> c = 0x2029 \<or>
     c = 0x202F \<or> c = 0x205F \<or> c = 0x3000 \<or> c = 0xFEFF"

definition trim :: "jsstring \<Rightarrow> jsstring" where
  "trim s = rev (dropWhile isWhiteSpace (rev (dropWhile isWhiteSpace s)))"

section \<open>Arrays, template literals and promises of the source language\<close>

text \<open>\<open>xs.map((x, i) => f(x, i))\<close> and \<open>xs.filter((x, i) => p(x, i))\<close>: the callback
  receives the element and its index.\<close>

definition mapi :: "('a \<Rightarrow> nat \<Rightarrow> 'b) \<Rightarrow> 'a list \<Rightarrow> 'b list" where
  "mapi f xs = map (\<lambda>(x, i). f x i) (zip xs [0..<length xs])"

definition filteri :: "('a \<Rightarrow> nat \<Rightarrow> bool) \<Rightarrow> 'a list \<Rightarrow> 'a list" where
  "filteri p xs = map fst (filter (\<lambda>(x, i). p x i) (zip xs [0..<length xs]))"

text \<open>\<open>xs[k]\<close> is \<open>undefined\<close> out of range, and a template literal prints
  \<open>undefined\<close> as the nine characters of that word.\<close>

definition at :: "'a list \<Rightarrow> nat \<Rightarrow> 'a option" where
  "at xs k = (if k < length xs then Some (xs ! k) else None)"

definition tpl :: "jsstring option \<Rightarrow> jsstring" where
  "tpl v = (case v of None \<Rightarrow> js ''undefined'' | Some s \<Rightarrow> s)"

text \<open>
  A settled promise is a value of a sum type: \<open>Inl e\<close> is a rejection with the error
  \<open>e\<close>, \<open>Inr v\<close> a fulfilment with \<open>v\<close>. \<open>await Promise.all(ps)\<close> gives the values of
  all the promises in the order of \<open>ps\<close> when every one is fulfilled, and throws when one
  is rejected. The rejection it throws is the one that settles first; the model has no
  clock and takes the one of lowest index (the error only goes to the console).
\<close>

fun Promise_all :: "('e + 'a) list \<Rightarrow> 'e + 'a list" where
  "Promise_all [] = Inr []"
| "Promise_all (Inl e # ps) = Inl e"
| "Promise_all (Inr v # ps) =
     (case Promise_all ps of Inl e \<Rightarrow> Inl e | Inr vs \<Rightarrow> Inr (v # vs))"

section \<open>Data model\<close>

datatype role = User | Model

record part =
  "text" :: jsstring

record message =
  role :: role
  parts :: "part list"

text \<open>\<open>Content\<close> of the generation service's client library has the two fields of
  \<open>Message\<close>.\<close>

type_synonym content = message

text \<open>The argument of \<open>generateContent\<close>; \<open>config\<close> only ever holds the system
  instruction.\<close>

record request =
  model :: jsstring
  contents :: "content list"
  systemInstruction :: jsstring

text \<open>
  The client \<open>ai\<close> is a parameter of the model. \<open>ai k req\<close> is how the promise returned by
  the \<open>k\<close>-th call of \<open>ai.models.generateContent\<close> in a run (counted from 0, in the order
  the calls are made) settles when the call is made with \<open>req\<close>: rejected with an error,
  or fulfilled with a response, of which the source reads the \<open>text\<close> only. The source
  uses that text as a string (it is stored into a \<open>Message\<close>).

  The handler constructs the client itself, inside its \<open>try\<close> block, and the constructor
  may throw (as it does without a key): what \<open>new GoogleGenAI(...)\<close> does is the first
  parameter of the handler, \<open>Inl e\<close> when it throws \<open>e\<close> and \<open>Inr ai\<close> when it returns the
  client \<open>ai\<close>.
\<close>

type_synonym 'e client = "nat \<Rightarrow> request \<Rightarrow> 'e + jsstring"

type_synonym 'e constructed = "'e + 'e client"

text \<open>The state of the component \<open>App\<close> that \<open>handleSubmit\<close> reads and writes.\<close>

record app =
  messages :: "message list"
  isLoading :: bool
  loadingStatus :: jsstring

text \<open>
  What one call of \<open>handleSubmit\<close> has done when its promise settles: the state it
  leaves, the requests it has made of the generation service, in the order of the calls,
  and the way it ended: by the early \<open>return\<close>, at the end of the \<open>try\<close> block, or in
  the \<open>catch\<close> block with the error caught (which \<open>console.error\<close> prints).
\<close>

datatype 'e ending = Returned | Completed | Caught 'e

record 'e outcome =
  state :: app
  issued :: "request list"
  ending :: "'e ending"

section \<open>Constants\<close>

definition MODEL_NAME :: jsstring where
  "MODEL_NAME = js ''gemini-2.5-pro''"

definition INITIAL_SYSTEM_INSTRUCTION :: jsstring where
  "INITIAL_SYSTEM_INSTRUCTION = js ''You are an expert-level AI assistant. Your task is to provide a comprehensive, accurate, and well-reasoned initial response to the user's query. Aim for clarity and depth. Note: Your response is an intermediate step for other AI agents and will not be shown to the user. Be concise and focus on core information without unnecessary verbosity.''"

definition REFINEMENT_SYSTEM_INSTRUCTION :: jsstring where
  "REFINEMENT_SYSTEM_INSTRUCTION = js ''You are a reflective AI agent. Your primary task is to find flaws. Critically analyze your previous response and the responses from other AI agents. Focus specifically on identifying factual inaccuracies, logical fallacies, omissions, or any other weaknesses. Your goal is to generate a new, revised response that corrects these specific errors and is free from the flaws you have identified. Note: This refined response is for a final synthesizer agent, not the user, so be direct and prioritize accuracy over conversational style.''"

text \<open>The dash after \<open>responses\<close> is U+2014.\<close>

definition SYNTHESIZER_SYSTEM_INSTRUCTION :: jsstring where
  "SYNTHESIZER_SYSTEM_INSTRUCTION = js ''You are a master synthesizer AI. Your PRIMARY GOAL is to write the final, complete response to the user's query. You will be given the user's query and four refined responses from other AI agents. Your task is to analyze these responses'' @ [0x2014] @ js ''identifying their strengths to incorporate and their flaws to discard. Use this analysis to construct the single best possible answer for the user. Do not just critique the other agents; your output should BE the final, polished response.''"

section \<open>The handler \<open>handleSubmit\<close>\<close>

text \<open>The calls \<open>ai.models.generateContent(req)\<close> for the requests \<open>reqs\<close>, made one after
  the other when \<open>n\<close> calls have been made before in the run: the promises they return.\<close>

definition generateContent :: "'e client \<Rightarrow> nat \<Rightarrow> request list \<Rightarrow> ('e + jsstring) list" where
  "generateContent ai n reqs = mapi (\<lambda>req i. ai (n + i) req) reqs"

text \<open>The \<open>catch\<close> block: the error is printed, the loading flag is cleared and a fixed
  message is appended as a turn of the model (\<open>setMessages(prev => [...prev, ...])\<close>
  appends to the messages of the current state).\<close>

definition caught :: "app \<Rightarrow> app" where
  "caught s =
     (let s = s\<lparr>isLoading := False\<rparr>;
          s = s\<lparr>messages := messages s @
                [\<lparr>role = Model, parts = [\<lparr>text = js ''Sorry, I encountered an error. Please try again.''\<rparr>]\<rparr>]\<rparr>
      in s)"

definition catch :: "app \<Rightarrow> request list \<Rightarrow> 'e \<Rightarrow> 'e outcome" where
  "catch s reqs error = \<lparr>state = caught s, issued = reqs, ending = Caught error\<rparr>"

text \<open>The end of the \<open>try\<close> block, after the last \<open>await\<close>.\<close>

definition finished :: "app \<Rightarrow> jsstring \<Rightarrow> app" where
  "finished s finalResponseText =
     (let s = s\<lparr>isLoading := False\<rparr>;
          finalMessage = \<lparr>role = Model, parts = [\<lparr>text = finalResponseText\<rparr>]\<rparr>;
          s = s\<lparr>messages := messages s @ [finalMessage]\<rparr>
      in s)"

text \<open>Step 3. \<open>reqs\<close> are the requests made before.\<close>

definition synthesizerContext :: "jsstring list \<Rightarrow> jsstring" where
  "synthesizerContext refinedAnswers =
     js ''Here are the four refined responses to the user's query. Your task is to synthesize them into the best single, final answer.\<newline>\<newline>Refined Response 1:\<newline>\"''
     @ tpl (at refinedAnswers 0)
     @ js ''\"\<newline>\<newline>Refined Response 2:\<newline>\"'' @ tpl (at refinedAnswers 1)
     @ js ''\"\<newline>\<newline>Refined Response 3:\<newline>\"'' @ tpl (at refinedAnswers 2)
     @ js ''\"\<newline>\<newline>Refined Response 4:\<newline>\"'' @ tpl (at refinedAnswers 3)
     @ js ''\"''"

definition synthesizerRequest :: "content list \<Rightarrow> jsstring \<Rightarrow> jsstring list \<Rightarrow> request" where
  "synthesizerRequest mainChatHistory userInput refinedAnswers =
     (let synthesizerTurn = \<lparr>role = User, parts = [\<lparr>text =
            userInput @ js ''\<newline>\<newline>---INTERNAL CONTEXT---\<newline>''
              @ synthesizerContext refinedAnswers\<rparr>]\<rparr>
      in \<lparr>model = MODEL_NAME, contents = mainChatHistory @ [synthesizerTurn],
          systemInstruction = SYNTHESIZER_SYSTEM_INSTRUCTION\<rparr>)"

definition synthesis ::
  "'e client \<Rightarrow> app \<Rightarrow> content list \<Rightarrow> jsstring \<Rightarrow> request list \<Rightarrow> jsstring list \<Rightarrow> 'e outcome" where
  "synthesis ai s mainChatHistory userInput reqs refinedAnswers =
     (let s = s\<lparr>loadingStatus := js ''Synthesizing final response...''\<rparr>;
          req = synthesizerRequest mainChatHistory userInput refinedAnswers
      in case ai (length reqs) req of
           Inl error \<Rightarrow> catch s (reqs @ [req]) error
         | Inr finalResponseText \<Rightarrow>
             \<lparr>state = finished s finalResponseText, issued = reqs @ [req],
              ending = Completed\<rparr>)"

text \<open>Step 2.\<close>

definition refinementContext :: "jsstring \<Rightarrow> jsstring list \<Rightarrow> jsstring" where
  "refinementContext initialAnswer otherAnswers =
     js ''My initial response was: \"'' @ initialAnswer
     @ js ''\". The other agents responded with: 1. \"'' @ tpl (at otherAnswers 0)
     @ js ''\" 2. \"'' @ tpl (at otherAnswers 1)
     @ js ''\" 3. \"'' @ tpl (at otherAnswers 2)
     @ js ''\". Based on this context, critically re-evaluate and provide a new, improved response to the original query.''"

definition refinementRequest ::
  "content list \<Rightarrow> jsstring \<Rightarrow> jsstring list \<Rightarrow> jsstring \<Rightarrow> nat \<Rightarrow> request" where
  "refinementRequest mainChatHistory userInput initialAnswers initialAnswer index =
     (let otherAnswers = filteri (\<lambda>_ i. i \<noteq> index) initialAnswers;
          refinementTurn = \<lparr>role = User, parts = [\<lparr>text =
            userInput @ js ''\<newline>\<newline>---INTERNAL CONTEXT---\<newline>''
              @ refinementContext initialAnswer otherAnswers\<rparr>]\<rparr>
      in \<lparr>model = MODEL_NAME, contents = mainChatHistory @ [refinementTurn],
          systemInstruction = REFINEMENT_SYSTEM_INSTRUCTION\<rparr>)"

definition refinement ::
  "'e client \<Rightarrow> app \<Rightarrow> content list \<Rightarrow> jsstring \<Rightarrow> request list \<Rightarrow> jsstring list \<Rightarrow> 'e outcome" where
  "refinement ai s mainChatHistory userInput reqs initialAnswers =
     (let s = s\<lparr>loadingStatus := js ''Refining answers...''\<rparr>;
          refinementRequests =
            mapi (refinementRequest mainChatHistory userInput initialAnswers) initialAnswers;
          refinementAgentPromises = generateContent ai (length reqs) refinementRequests
      in case Promise_all refinementAgentPromises of
           Inl error \<Rightarrow> catch s (reqs @ refinementRequests) error
         | Inr refinedAnswers \<Rightarrow>
             synthesis ai s mainChatHistory userInput (reqs @ refinementRequests) refinedAnswers)"

text \<open>The handler, from the submitted text of the form: the check of the input, the
  user's turn, the construction of the client, step 1. The handler is the one of the
  render of the state \<open>s\<close>: the \<open>messages\<close> of its closure are those of \<open>s\<close>.\<close>

definition initialRequest :: "content list \<Rightarrow> jsstring \<Rightarrow> request" where
  "initialRequest mainChatHistory userInput =
     (let currentUserTurn = \<lparr>role = User, parts = [\<lparr>text = userInput\<rparr>]\<rparr>
      in \<lparr>model = MODEL_NAME, contents = mainChatHistory @ [currentUserTurn],
          systemInstruction = INITIAL_SYSTEM_INSTRUCTION\<rparr>)"

definition handleSubmit :: "'e constructed \<Rightarrow> app \<Rightarrow> jsstring \<Rightarrow> 'e outcome" where
  "handleSubmit GoogleGenAI s userInput =
     (if trim userInput = [] then \<lparr>state = s, issued = [], ending = Returned\<rparr>
      else
        let userMessage = \<lparr>role = User, parts = [\<lparr>text = userInput\<rparr>]\<rparr>;
            currentMessages = messages s @ [userMessage];
            s = s\<lparr>messages := currentMessages\<rparr>;
            s = s\<lparr>isLoading := True\<rparr>
        in case GoogleGenAI of
             Inl error \<Rightarrow> catch s [] error
           | Inr ai \<Rightarrow>
               (let mainChatHistory =
                      map (\<lambda>msg. \<lparr>role = role msg, parts = parts msg\<rparr>)
                        (butlast currentMessages);
                    s = s\<lparr>loadingStatus := js ''Initializing agents...''\<rparr>;
                    initialRequests =
                      map (\<lambda>_. initialRequest mainChatHistory userInput) (replicate 4 (0::nat));
                    initialAgentPromises = generateContent ai 0 initialRequests
                in case Promise_all initialAgentPromises of
                     Inl error \<Rightarrow> catch s initialRequests error
                   | Inr initialAnswers \<Rightarrow>
                       refinement ai s mainChatHistory userInput initialRequests
                         initialAnswers))"

section \<open>The page: events and suspended calls of the handler\<close>

text \<open>
  \<open>handleSubmit\<close> is an asynchronous function: a call runs to its next \<open>await\<close>, is
  suspended there, and is resumed when the awaited promise settles; other events are
  handled in between. A suspended call keeps the variables of its closure that the rest
  of the function reads (\<open>userInput\<close> and \<open>mainChatHistory\<close>), the \<open>await\<close> it is
  suspended at (the join of the four initial calls, the join of the four refinement
  calls, or the synthesis call) and the requests whose promises it awaits.
\<close>

datatype awaited = Initial | Refined | Final

record call =
  c_userInput :: jsstring
  c_mainChatHistory :: "content list"
  awaited :: awaited
  inFlight :: "request list"

text \<open>
  The handler from its start to the first \<open>await\<close>: the new state and the suspended
  call, or no call after the early \<open>return\<close> or when the constructor throws. The
  handler belongs to a render: \<open>messages\<close> in its closure are those of the state \<open>v\<close>
  that was rendered last, while the updates go to the current state \<open>s\<close>.
\<close>

definition submitted :: "'e constructed \<Rightarrow> app \<Rightarrow> app \<Rightarrow> jsstring \<Rightarrow> app \<times> call option" where
  "submitted GoogleGenAI v s userInput =
     (if trim userInput = [] then (s, None)
      else
        let userMessage = \<lparr>role = User, parts = [\<lparr>text = userInput\<rparr>]\<rparr>;
            currentMessages = messages v @ [userMessage];
            s = s\<lparr>messages := currentMessages\<rparr>;
            s = s\<lparr>isLoading := True\<rparr>
        in case GoogleGenAI of
             Inl error \<Rightarrow> (caught s, None)
           | Inr ai \<Rightarrow>
               (let mainChatHistory =
                      map (\<lambda>msg. \<lparr>role = role msg, parts = parts msg\<rparr>)
                        (butlast currentMessages);
                    s = s\<lparr>loadingStatus := js ''Initializing agents...''\<rparr>;
                    initialRequests =
                      map (\<lambda>_. initialRequest mainChatHistory userInput) (replicate 4 (0::nat))
                in (s, Some \<lparr>c_userInput = userInput, c_mainChatHistory = mainChatHistory,
                             awaited = Initial, inFlight = initialRequests\<rparr>)))"

text \<open>The handler from one \<open>await\<close> to the next, or to its end, when the promises it
  awaits have settled as \<open>settled\<close> (the synthesis call is one promise).\<close>

definition resumed :: "app \<Rightarrow> call \<Rightarrow> ('e + jsstring) list \<Rightarrow> app \<times> call option" where
  "resumed s c settled =
     (case Promise_all settled of
        Inl error \<Rightarrow> (caught s, None)
      | Inr texts \<Rightarrow>
          (case awaited c of
             Initial \<Rightarrow>
               (let s = s\<lparr>loadingStatus := js ''Refining answers...''\<rparr>;
                    refinementRequests =
                      mapi (refinementRequest (c_mainChatHistory c) (c_userInput c) texts) texts
                in (s, Some (c\<lparr>awaited := Refined, inFlight := refinementRequests\<rparr>)))
           | Refined \<Rightarrow>
               (let s = s\<lparr>loadingStatus := js ''Synthesizing final response...''\<rparr>;
                    req = synthesizerRequest (c_mainChatHistory c) (c_userInput c) texts
                in (s, Some (c\<lparr>awaited := Final, inFlight := [req]\<rparr>)))
           | Final \<Rightarrow> (finished s (hd texts), None)))"

text \<open>
  The page is the current state of \<open>App\<close>, the state that was rendered last (the form on
  the screen and the closure of its handler are those of that render) and the suspended
  calls of the handler. Three kinds of events change it. \<open>Submit userInput\<close> is a submit
  event of the form: \<open>onSubmit\<close> calls the handler, whatever the state is. \<open>Render\<close> is a
  render of the current state. \<open>Settle j settled\<close> is the settling of the promises that
  the \<open>j\<close>-th suspended call awaits.
\<close>

record page =
  app :: app
  view :: app
  calls :: "call list"



text \<open>The page when \<open>App\<close> is mounted (\<open>useState([])\<close>, \<open>useState(false)\<close>,
  \<open>useState('')\<close>), and the page after a sequence of events.\<close>

definition mounted :: app where
  "mounted = \<lparr>messages = [], isLoading = False, loadingStatus = []\<rparr>"




section \<open>A client and a state for examples\<close>

text \<open>
  \<open>earlier\<close> is the state of \<open>App\<close> after one earlier exchange.
  \<open>mock texts\<close> is a client that fulfils its \<open>k\<close>-th call with the \<open>k\<close>-th of the given
  texts, whatever the request, and rejects every call after them.
\<close>

definition earlier :: app where
  "earlier = \<lparr>messages = [\<lparr>role = User, parts = [\<lparr>text = js ''Hi''\<rparr>]\<rparr>,
                          \<lparr>role = Model, parts = [\<lparr>text = js ''Hello''\<rparr>]\<rparr>],
              isLoading = False, loadingStatus = js ''Synthesizing final response...''\<rparr>"

definition mock :: "jsstring list \<Rightarrow> unit client" where
  "mock texts k req = (if k < length texts then Inr (texts ! k) else Inl ())"

definition mockInitial :: "jsstring list" where
  "mockInitial = [js ''I0'', js ''I1'', js ''I2'', js ''I3'']"

definition mockRefined :: "jsstring list" where
  "mockRefined = [js ''R0'', js ''R1'', js ''R2'', js ''R3'']"

section \<open>Arrays, strings and promises: basic facts\<close>

lemma length_mapi [simp]: "length (mapi f xs) = length xs"
  by (simp add: mapi_def)

lemma nth_mapi [simp]: "i < length xs \<Longrightarrow> mapi f xs ! i = f (xs ! i) i"
  by (simp add: mapi_def)

lemma filteri_nth:
  "filteri p xs = map (\<lambda>j. xs ! j) (filter (\<lambda>j. p (xs ! j) j) [0..<length xs])"
proof -
  have "zip xs [0..<length xs] = map (\<lambda>j. (xs ! j, j)) [0..<length xs]"
    by (rule nth_equalityI) simp_all
  then show ?thesis
    by (simp add: filteri_def filter_map comp_def)
qed

lemma Promise_all_map_Inr [simp]: "Promise_all (map Inr vs) = Inr vs"
  by (induction vs) simp_all

lemma Promise_all_Inr: "Promise_all ps = Inr vs \<longleftrightarrow> ps = map Inr vs"
proof
  show "Promise_all ps = Inr vs \<Longrightarrow> ps = map Inr vs"
    by (induction ps arbitrary: vs rule: Promise_all.induct) (auto split: sum.splits)
qed simp

lemma Promise_all_Inl: "Promise_all ps = Inl e \<Longrightarrow> Inl e \<in> set ps"
  by (induction ps rule: Promise_all.induct) (auto split: sum.splits)

lemma Promise_all_rejected: "Inl e \<in> set ps \<Longrightarrow> \<exists>e'. Promise_all ps = Inl e'"
  by (induction ps rule: Promise_all.induct) (auto split: sum.splits)

lemma all_dropWhile: "(\<forall>x\<in>set (dropWhile P xs). P x) \<longleftrightarrow> (\<forall>x\<in>set xs. P x)"
  by (induction xs) auto

lemma trim_empty: "trim s = [] \<longleftrightarrow> (\<forall>c\<in>set s. isWhiteSpace c)"
  by (simp add: trim_def all_dropWhile)

lemma tpl_at: "k < length xs \<Longrightarrow> tpl (at xs k) = xs ! k"
  by (simp add: at_def tpl_def)

lemma length_generateContent [simp]: "length (generateContent ai n reqs) = length reqs"
  by (simp add: generateContent_def)

lemma nth_generateContent [simp]:
  "i < length reqs \<Longrightarrow> generateContent ai n reqs ! i = ai (n + i) (reqs ! i)"
  by (simp add: generateContent_def)


lemma generateContent_fulfilled:
  assumes "length vs = length reqs" and "\<forall>k<length reqs. ai (n + k) (reqs ! k) = Inr (vs ! k)"
  shows "Promise_all (generateContent ai n reqs) = Inr vs"
proof -
  have "generateContent ai n reqs = map Inr vs"
    using assms by (intro nth_equalityI) simp_all
  then show ?thesis by simp
qed

lemma generateContent_rejected:
  assumes "k < length reqs" and "ai (n + k) (reqs ! k) = Inl e"
  shows "\<exists>e'. Promise_all (generateContent ai n reqs) = Inl e'"
proof -
  have "generateContent ai n reqs ! k = Inl e"
    using assms by simp
  then have "Inl e \<in> set (generateContent ai n reqs)"
    using assms(1) by (metis length_generateContent nth_mem)
  then show ?thesis by (rule Promise_all_rejected)
qed

lemma generateContent_cases:
  obtains (rejected) k e where "k < length reqs" and "ai (n + k) (reqs ! k) = Inl e"
  | (fulfilled) vs where "length vs = length reqs"
      and "\<forall>k<length reqs. ai (n + k) (reqs ! k) = Inr (vs ! k)"
proof (cases "\<exists>k<length reqs. isl (ai (n + k) (reqs ! k))")
  case True
  then obtain k where "k < length reqs" and "isl (ai (n + k) (reqs ! k))" by blast
  then show ?thesis using rejected by (auto simp: isl_def)
next
  case False
  let ?vs = "map (\<lambda>k. projr (ai (n + k) (reqs ! k))) [0..<length reqs]"
  have "\<forall>k<length reqs. ai (n + k) (reqs ! k) = Inr (?vs ! k)"
    using False by (auto simp: sum.collapse(2))
  then show ?thesis using fulfilled [of ?vs] by simp
qed

lemma Promise_all_Inl_nth:
  "Promise_all ps = Inl e \<Longrightarrow> \<exists>j<length ps. ps ! j = Inl e"
  using Promise_all_Inl [of ps e] by (simp add: in_set_conv_nth)

lemma generateContent_rejected_error:
  assumes "k < length reqs" and "ai (n + k) (reqs ! k) = Inl e"
  shows "\<exists>e' j. j < length reqs \<and> ai (n + j) (reqs ! j) = Inl e'
     \<and> Promise_all (generateContent ai n reqs) = Inl e'"
proof -
  from generateContent_rejected [where ai = ai and n = n and reqs = reqs and k = k, OF assms]
  obtain e' where e': "Promise_all (generateContent ai n reqs) = Inl e'" by blast
  from Promise_all_Inl_nth [OF this] obtain j
    where "j < length reqs" and "generateContent ai n reqs ! j = Inl e'" by auto
  then show ?thesis using e' by auto
qed

section \<open>The paths through \<open>handleSubmit\<close>\<close>

lemma copy_messages [simp]: "map (\<lambda>msg. \<lparr>role = role msg, parts = parts msg\<rparr>) ms = ms"
  by (induction ms) simp_all

lemma handleSubmit_blank:
  "trim q = [] \<Longrightarrow> handleSubmit c s q = \<lparr>state = s, issued = [], ending = Returned\<rparr>"
  by (simp add: handleSubmit_def)

lemma handleSubmit_not_constructed:
  assumes "trim q \<noteq> []"
  shows "handleSubmit (Inl e) s q =
     \<lparr>state = \<lparr>messages = messages s @ [\<lparr>role = User, parts = [\<lparr>text = q\<rparr>]\<rparr>,
                \<lparr>role = Model, parts =
                  [\<lparr>text = js ''Sorry, I encountered an error. Please try again.''\<rparr>]\<rparr>],
              isLoading = False, loadingStatus = loadingStatus s\<rparr>,
      issued = [], ending = Caught e\<rparr>"
  using assms by (cases s) (simp add: handleSubmit_def Let_def catch_def caught_def)

lemma handleSubmit_step1:
  assumes "trim q \<noteq> []"
  shows "handleSubmit (Inr ai) s q =
    (case Promise_all (generateContent ai 0 (replicate 4 (initialRequest (messages s) q))) of
       Inl error \<Rightarrow>
         catch \<lparr>messages = messages s @ [\<lparr>role = User, parts = [\<lparr>text = q\<rparr>]\<rparr>],
                isLoading = True, loadingStatus = js ''Initializing agents...''\<rparr>
           (replicate 4 (initialRequest (messages s) q)) error
     | Inr initialAnswers \<Rightarrow>
         refinement ai
           \<lparr>messages = messages s @ [\<lparr>role = User, parts = [\<lparr>text = q\<rparr>]\<rparr>],
            isLoading = True, loadingStatus = js ''Initializing agents...''\<rparr>
           (messages s) q (replicate 4 (initialRequest (messages s) q)) initialAnswers)"
  using assms by (cases s) (simp add: handleSubmit_def Let_def split: sum.splits)


lemma catch_eq:
  "catch \<lparr>messages = M, isLoading = b, loadingStatus = L\<rparr> reqs e =
     \<lparr>state = \<lparr>messages = M @ [\<lparr>role = Model, parts =
                [\<lparr>text = js ''Sorry, I encountered an error. Please try again.''\<rparr>]\<rparr>],
              isLoading = False, loadingStatus = L\<rparr>,
      issued = reqs, ending = Caught e\<rparr>"
  by (simp add: catch_def caught_def)

lemma synthesis_rejected:
  assumes "ai (length reqs) (synthesizerRequest H q R) = Inl e"
  shows "synthesis ai \<lparr>messages = M, isLoading = b, loadingStatus = L\<rparr> H q reqs R =
     \<lparr>state = \<lparr>messages = M @ [\<lparr>role = Model, parts =
                [\<lparr>text = js ''Sorry, I encountered an error. Please try again.''\<rparr>]\<rparr>],
              isLoading = False, loadingStatus = js ''Synthesizing final response...''\<rparr>,
      issued = reqs @ [synthesizerRequest H q R], ending = Caught e\<rparr>"
  using assms by (simp add: synthesis_def catch_eq)

lemma synthesis_fulfilled:
  assumes "ai (length reqs) (synthesizerRequest H q R) = Inr S"
  shows "synthesis ai \<lparr>messages = M, isLoading = b, loadingStatus = L\<rparr> H q reqs R =
     \<lparr>state = \<lparr>messages = M @ [\<lparr>role = Model, parts = [\<lparr>text = S\<rparr>]\<rparr>],
              isLoading = False, loadingStatus = js ''Synthesizing final response...''\<rparr>,
      issued = reqs @ [synthesizerRequest H q R], ending = Completed\<rparr>"
  using assms by (simp add: synthesis_def finished_def)

lemma refinement_rejected:
  assumes "i < length I"
    and "ai (length reqs + i) (refinementRequest H q I (I ! i) i) = Inl e"
  shows "\<exists>e' j. j < length I
     \<and> ai (length reqs + j) (refinementRequest H q I (I ! j) j) = Inl e'
     \<and> refinement ai \<lparr>messages = M, isLoading = b, loadingStatus = L\<rparr> H q reqs I =
     \<lparr>state = \<lparr>messages = M @ [\<lparr>role = Model, parts =
                [\<lparr>text = js ''Sorry, I encountered an error. Please try again.''\<rparr>]\<rparr>],
              isLoading = False, loadingStatus = js ''Refining answers...''\<rparr>,
      issued = reqs @ mapi (refinementRequest H q I) I, ending = Caught e'\<rparr>"
proof -
  have "\<exists>e' j. j < length (mapi (refinementRequest H q I) I)
      \<and> ai (length reqs + j) (mapi (refinementRequest H q I) I ! j) = Inl e'
      \<and> Promise_all (generateContent ai (length reqs)
          (mapi (refinementRequest H q I) I)) = Inl e'"
    using assms by (intro generateContent_rejected_error [of i]) simp_all
  then show ?thesis
    by (auto simp: refinement_def catch_eq)
qed

lemma refinement_fulfilled:
  assumes "length R = length I"
    and "\<forall>i<length I. ai (length reqs + i) (refinementRequest H q I (I ! i) i) = Inr (R ! i)"
  shows "refinement ai \<lparr>messages = M, isLoading = b, loadingStatus = L\<rparr> H q reqs I =
     synthesis ai \<lparr>messages = M, isLoading = b, loadingStatus = js ''Refining answers...''\<rparr>
       H q (reqs @ mapi (refinementRequest H q I) I) R"
proof -
  have "Promise_all (generateContent ai (length reqs)
          (mapi (refinementRequest H q I) I)) = Inr R"
    using assms by (intro generateContent_fulfilled) simp_all
  then show ?thesis
    by (simp add: refinement_def)
qed


lemma handleSubmit_rejected1:
  assumes "trim q \<noteq> []" and "k < 4" and "ai k (initialRequest (messages s) q) = Inl e"
  shows "\<exists>e' j. j < 4 \<and> ai j (initialRequest (messages s) q) = Inl e'
     \<and> handleSubmit (Inr ai) s q =
     \<lparr>state = \<lparr>messages = messages s @ [\<lparr>role = User, parts = [\<lparr>text = q\<rparr>]\<rparr>,
                \<lparr>role = Model, parts =
                  [\<lparr>text = js ''Sorry, I encountered an error. Please try again.''\<rparr>]\<rparr>],
              isLoading = False, loadingStatus = js ''Initializing agents...''\<rparr>,
      issued = replicate 4 (initialRequest (messages s) q), ending = Caught e'\<rparr>"
proof -
  have "\<exists>e' j. j < length (replicate 4 (initialRequest (messages s) q))
      \<and> ai (0 + j) (replicate 4 (initialRequest (messages s) q) ! j) = Inl e'
      \<and> Promise_all (generateContent ai 0
          (replicate 4 (initialRequest (messages s) q))) = Inl e'"
    using assms(2,3) by (intro generateContent_rejected_error [of k]) simp_all
  then show ?thesis
    using assms(1) by (auto simp: handleSubmit_step1 catch_eq)
qed

lemma handleSubmit_fulfilled1:
  assumes "trim q \<noteq> []" and "length I = 4"
    and "\<forall>k<4. ai k (initialRequest (messages s) q) = Inr (I ! k)"
  shows "handleSubmit (Inr ai) s q =
     refinement ai \<lparr>messages = messages s @ [\<lparr>role = User, parts = [\<lparr>text = q\<rparr>]\<rparr>],
                    isLoading = True, loadingStatus = js ''Initializing agents...''\<rparr>
       (messages s) q (replicate 4 (initialRequest (messages s) q)) I"
proof -
  have "Promise_all (generateContent ai 0
          (replicate 4 (initialRequest (messages s) q))) = Inr I"
    using assms(2,3) by (intro generateContent_fulfilled) simp_all
  then show ?thesis
    using assms(1) by (simp add: handleSubmit_step1)
qed

lemma handleSubmit_rejected2:
  assumes "trim q \<noteq> []" and "length I = 4"
    and "\<forall>k<4. ai k (initialRequest (messages s) q) = Inr (I ! k)"
    and "i < 4" and "ai (4 + i) (refinementRequest (messages s) q I (I ! i) i) = Inl e"
  shows "\<exists>e' j. j < 4
     \<and> ai (4 + j) (refinementRequest (messages s) q I (I ! j) j) = Inl e'
     \<and> handleSubmit (Inr ai) s q =
     \<lparr>state = \<lparr>messages = messages s @ [\<lparr>role = User, parts = [\<lparr>text = q\<rparr>]\<rparr>,
                \<lparr>role = Model, parts =
                  [\<lparr>text = js ''Sorry, I encountered an error. Please try again.''\<rparr>]\<rparr>],
              isLoading = False, loadingStatus = js ''Refining answers...''\<rparr>,
      issued = replicate 4 (initialRequest (messages s) q)
               @ mapi (refinementRequest (messages s) q I) I,
      ending = Caught e'\<rparr>"
  using refinement_rejected [of i I ai "replicate 4 (initialRequest (messages s) q)"
      "messages s" q e "messages s @ [\<lparr>role = User, parts = [\<lparr>text = q\<rparr>]\<rparr>]"
      True "js ''Initializing agents...''"] assms
  by (simp add: handleSubmit_fulfilled1 [of q I ai s])

lemma handleSubmit_fulfilled2:
  assumes "trim q \<noteq> []" and "length I = 4"
    and "\<forall>k<4. ai k (initialRequest (messages s) q) = Inr (I ! k)"
    and "length R = 4"
    and "\<forall>i<4. ai (4 + i) (refinementRequest (messages s) q I (I ! i) i) = Inr (R ! i)"
  shows "handleSubmit (Inr ai) s q =
     synthesis ai \<lparr>messages = messages s @ [\<lparr>role = User, parts = [\<lparr>text = q\<rparr>]\<rparr>],
                   isLoading = True, loadingStatus = js ''Refining answers...''\<rparr>
       (messages s) q (replicate 4 (initialRequest (messages s) q)
                        @ mapi (refinementRequest (messages s) q I) I) R"
  using refinement_fulfilled [of R I ai "replicate 4 (initialRequest (messages s) q)"
      "messages s" q "messages s @ [\<lparr>role = User, parts = [\<lparr>text = q\<rparr>]\<rparr>]"
      True "js ''Initializing agents...''"] assms
  by (simp add: handleSubmit_fulfilled1 [of q I ai s])

lemma handleSubmit_rejected3:
  assumes "trim q \<noteq> []" and "length I = 4"
    and "\<forall>k<4. ai k (initialRequest (messages s) q) = Inr (I ! k)"
    and "length R = 4"
    and "\<forall>i<4. ai (4 + i) (refinementRequest (messages s) q I (I ! i) i) = Inr (R ! i)"
    and "ai 8 (synthesizerRequest (messages s) q R) = Inl e"
  shows "handleSubmit (Inr ai) s q =
     \<lparr>state = \<lparr>messages = messages s @ [\<lparr>role = User, parts = [\<lparr>text = q\<rparr>]\<rparr>,
                \<lparr>role = Model, parts =
                  [\<lparr>text = js ''Sorry, I encountered an error. Please try again.''\<rparr>]\<rparr>],
              isLoading = False, loadingStatus = js ''Synthesizing final response...''\<rparr>,
      issued = replicate 4 (initialRequest (messages s) q)
               @ mapi (refinementRequest (messages s) q I) I
               @ [synthesizerRequest (messages s) q R],
      ending = Caught e\<rparr>"
  using assms
  by (simp add: handleSubmit_fulfilled2 [of q I ai s R] synthesis_rejected)

lemma handleSubmit_completed:
  assumes "trim q \<noteq> []" and "length I = 4"
    and "\<forall>k<4. ai k (initialRequest (messages s) q) = Inr (I ! k)"
    and "length R = 4"
    and "\<forall>i<4. ai (4 + i) (refinementRequest (messages s) q I (I ! i) i) = Inr (R ! i)"
    and "ai 8 (synthesizerRequest (messages s) q R) = Inr S"
  shows "handleSubmit (Inr ai) s q =
     \<lparr>state = \<lparr>messages = messages s @ [\<lparr>role = User, parts = [\<lparr>text = q\<rparr>]\<rparr>,
                \<lparr>role = Model, parts = [\<lparr>text = S\<rparr>]\<rparr>],
              isLoading = False, loadingStatus = js ''Synthesizing final response...''\<rparr>,
      issued = replicate 4 (initialRequest (messages s) q)
               @ mapi (refinementRequest (messages s) q I) I
               @ [synthesizerRequest (messages s) q R],
      ending = Completed\<rparr>"
  using assms
  by (simp add: handleSubmit_fulfilled2 [of q I ai s R] synthesis_fulfilled)

lemma handleSubmit_cases [case_names blank rejected1 rejected2 rejected3 completed]:
  fixes ai :: "'e client"
  obtains "trim q = []"
  | k e where "trim q \<noteq> []" and "k < 4" and "ai k (initialRequest (messages s) q) = Inl e"
  | I i e where "trim q \<noteq> []" and "length I = 4"
      and "\<forall>k<4. ai k (initialRequest (messages s) q) = Inr (I ! k)"
      and "i < 4" and "ai (4 + i) (refinementRequest (messages s) q I (I ! i) i) = Inl e"
  | I R e where "trim q \<noteq> []" and "length I = 4"
      and "\<forall>k<4. ai k (initialRequest (messages s) q) = Inr (I ! k)"
      and "length R = 4"
      and "\<forall>i<4. ai (4 + i) (refinementRequest (messages s) q I (I ! i) i) = Inr (R ! i)"
      and "ai 8 (synthesizerRequest (messages s) q R) = Inl e"
  | I R S where "trim q \<noteq> []" and "length I = 4"
      and "\<forall>k<4. ai k (initialRequest (messages s) q) = Inr (I ! k)"
      and "length R = 4"
      and "\<forall>i<4. ai (4 + i) (refinementRequest (messages s) q I (I ! i) i) = Inr (R ! i)"
      and "ai 8 (synthesizerRequest (messages s) q R) = Inr S"
proof (cases "trim q = []")
  case True
  then show ?thesis by (rule that(1))
next
  case nonblank: False
  show ?thesis
  proof (cases rule: generateContent_cases
      [of "replicate 4 (initialRequest (messages s) q)" ai 0])
    case (rejected k e)
    then show ?thesis using nonblank that(2) [of k e] by simp
  next
    case stage1: (fulfilled I)
    then have I: "length I = 4"
      "\<forall>k<4. ai k (initialRequest (messages s) q) = Inr (I ! k)"
      by simp_all
    show ?thesis
    proof (cases rule: generateContent_cases
        [of "mapi (refinementRequest (messages s) q I) I" ai 4])
      case (rejected i e)
      then show ?thesis using nonblank I that(3) [of I i e] by simp
    next
      case stage2: (fulfilled R)
      then have R: "length R = 4"
        "\<forall>i<4. ai (4 + i) (refinementRequest (messages s) q I (I ! i) i) = Inr (R ! i)"
        using I(1) by simp_all
      show ?thesis
      proof (cases "ai 8 (synthesizerRequest (messages s) q R)")
        case (Inl e)
        then show ?thesis using nonblank I R that(4) [of I R e] by simp
      next
        case (Inr S)
        then show ?thesis using nonblank I R that(5) [of I R S] by simp
      qed
    qed
  qed
qed


lemma upt_0_4: "[0..<4] = [0, 1, 2, 3::nat]"
  by code_simp

lemma all_less_4: "(\<forall>k<4. P k) \<longleftrightarrow> P 0 \<and> P 1 \<and> P 2 \<and> P (3::nat)"
proof -
  have "k < 4 \<longleftrightarrow> k = 0 \<or> k = 1 \<or> k = 2 \<or> k = 3" for k :: nat
    by arith
  then show ?thesis by auto
qed

lemma length_others: "i < 4 \<Longrightarrow> length [j\<leftarrow>[0..<4]. j \<noteq> i] = 3"
  using all_less_4 [of "\<lambda>i. length [j\<leftarrow>[0..<4]. j \<noteq> i] = 3"]
  by (simp add: upt_0_4)

lemma otherAnswers_eq:
  "length I = 4 \<Longrightarrow> filteri (\<lambda>_ j. j \<noteq> i) I = map ((!) I) [j\<leftarrow>[0..<4]. j \<noteq> i]"
  by (simp add: filteri_nth)

lemma refinementRequest_eq:
  assumes "length I = 4"
  shows "refinementRequest H q I a i =
     \<lparr>model = MODEL_NAME,
      contents = H @ [\<lparr>role = User, parts = [\<lparr>text =
        q @ js ''\<newline>\<newline>---INTERNAL CONTEXT---\<newline>''
          @ refinementContext a (map ((!) I) [j\<leftarrow>[0..<4]. j \<noteq> i])\<rparr>]\<rparr>],
      systemInstruction = REFINEMENT_SYSTEM_INSTRUCTION\<rparr>"
  using assms by (simp add: refinementRequest_def otherAnswers_eq)

lemma refinementContext_eq:
  assumes "length os = 3"
  shows "refinementContext a os =
     js ''My initial response was: \"'' @ a
     @ js ''\". The other agents responded with: 1. \"'' @ os ! 0
     @ js ''\" 2. \"'' @ os ! 1
     @ js ''\" 3. \"'' @ os ! 2
     @ js ''\". Based on this context, critically re-evaluate and provide a new, improved response to the original query.''"
  using assms by (simp add: refinementContext_def at_def tpl_def)

lemma synthesizerContext_eq:
  assumes "length R = 4"
  shows "synthesizerContext R =
     js ''Here are the four refined responses to the user's query. Your task is to synthesize them into the best single, final answer.\<newline>\<newline>Refined Response 1:\<newline>\"''
     @ R ! 0
     @ js ''\"\<newline>\<newline>Refined Response 2:\<newline>\"'' @ R ! 1
     @ js ''\"\<newline>\<newline>Refined Response 3:\<newline>\"'' @ R ! 2
     @ js ''\"\<newline>\<newline>Refined Response 4:\<newline>\"'' @ R ! 3
     @ js ''\"''"
  using assms by (simp add: synthesizerContext_def at_def tpl_def)

lemma issued_after_step1:
  fixes ai :: "'e client"
  assumes "trim q \<noteq> []" and "length I = 4"
    and "\<forall>k<4. ai k (initialRequest (messages s) q) = Inr (I ! k)"
  shows "\<exists>rest. length rest \<le> 1
     \<and> (rest = [] \<or> (\<exists>R. rest = [synthesizerRequest (messages s) q R]))
     \<and> issued (handleSubmit (Inr ai) s q) =
     replicate 4 (initialRequest (messages s) q)
     @ mapi (refinementRequest (messages s) q I) I @ rest"
proof (cases rule: generateContent_cases
    [of "mapi (refinementRequest (messages s) q I) I" ai 4])
  case (rejected i e)
  then have "i < 4" "ai (4 + i) (refinementRequest (messages s) q I (I ! i) i) = Inl e"
    using assms(2) by simp_all
  from handleSubmit_rejected2 [OF assms this] show ?thesis by auto
next
  case (fulfilled R)
  then have R: "length R = 4"
    "\<forall>i<4. ai (4 + i) (refinementRequest (messages s) q I (I ! i) i) = Inr (R ! i)"
    using assms(2) by simp_all
  show ?thesis
  proof (cases "ai 8 (synthesizerRequest (messages s) q R)")
    case (Inl e)
    from handleSubmit_rejected3 [OF assms R this] show ?thesis by auto
  next
    case (Inr S)
    from handleSubmit_completed [OF assms R this] show ?thesis by auto
  qed
qed

section \<open>The handler by its steps\<close>

lemma submitted_blank: "trim q = [] \<Longrightarrow> submitted c v s q = (s, None)"
  by (simp add: submitted_def)

lemma submitted_not_constructed:
  "trim q \<noteq> [] \<Longrightarrow> submitted (Inl e) v s q =
     (\<lparr>messages = messages v @ [\<lparr>role = User, parts = [\<lparr>text = q\<rparr>]\<rparr>,
         \<lparr>role = Model, parts =
           [\<lparr>text = js ''Sorry, I encountered an error. Please try again.''\<rparr>]\<rparr>],
       isLoading = False, loadingStatus = loadingStatus s\<rparr>, None)"
  by (cases s) (simp add: submitted_def Let_def caught_def)

lemma submitted_nonblank:
  "trim q \<noteq> [] \<Longrightarrow> submitted (Inr ai) v s q =
     (\<lparr>messages = messages v @ [\<lparr>role = User, parts = [\<lparr>text = q\<rparr>]\<rparr>],
       isLoading = True, loadingStatus = js ''Initializing agents...''\<rparr>,
      Some \<lparr>c_userInput = q, c_mainChatHistory = messages v, awaited = Initial,
            inFlight = replicate 4 (initialRequest (messages v) q)\<rparr>)"
  by (cases s) (simp add: submitted_def Let_def)

text \<open>The handler does not look at \<open>isLoading\<close>: called with a text that is not blank it
  starts a run in any state.\<close>

lemma handler_has_no_guard: "trim q \<noteq> [] \<Longrightarrow> snd (submitted (Inr ai) v s q) \<noteq> None"
  by (simp add: submitted_nonblank)


lemma resumed_rejected: "Promise_all settled = Inl e \<Longrightarrow> resumed s c settled = (caught s, None)"
  by (simp add: resumed_def)

lemma caught_eq:
  "caught \<lparr>messages = M, isLoading = b, loadingStatus = L\<rparr> =
     \<lparr>messages = M @ [\<lparr>role = Model, parts =
        [\<lparr>text = js ''Sorry, I encountered an error. Please try again.''\<rparr>]\<rparr>],
      isLoading = False, loadingStatus = L\<rparr>"
  by (simp add: caught_def)

text \<open>Running the steps of a call one after the other, each with the promises settled as
  the client settles them, gives the state that \<open>handleSubmit\<close> gives, when the handler
  is the one of the render of the current state.\<close>

lemma handler_by_steps_constructed:
  fixes ai :: "'e client"
  shows "state (handleSubmit (Inr ai) s q) =
    (case submitted (Inr ai) s s q of
       (s, None) \<Rightarrow> s
     | (s, Some c) \<Rightarrow>
        (case resumed s c (generateContent ai 0 (inFlight c)) of
           (s, None) \<Rightarrow> s
         | (s, Some c) \<Rightarrow>
            (case resumed s c (generateContent ai 4 (inFlight c)) of
               (s, None) \<Rightarrow> s
             | (s, Some c) \<Rightarrow> fst (resumed s c (generateContent ai 8 (inFlight c))))))"
proof (cases rule: handleSubmit_cases [where ai = ai and q = q and s = s])
  case blank
  then show ?thesis by (simp add: handleSubmit_blank submitted_blank)
next
  case (rejected1 k e)
  then have "\<exists>e'. Promise_all (generateContent ai 0
          (replicate 4 (initialRequest (messages s) q))) = Inl e'"
    by (intro generateContent_rejected [of k]) simp_all
  with handleSubmit_rejected1 [where ai = ai and s = s, OF rejected1] rejected1(1)
  show ?thesis
    by (auto simp: submitted_nonblank resumed_rejected caught_eq)
next
  case (rejected2 I i e)
  have one: "Promise_all (generateContent ai 0
          (replicate 4 (initialRequest (messages s) q))) = Inr I"
    using rejected2(2,3) by (intro generateContent_fulfilled) simp_all
  have "\<exists>e'. Promise_all (generateContent ai 4
          (mapi (refinementRequest (messages s) q I) I)) = Inl e'"
    using rejected2(2,4,5) by (intro generateContent_rejected [of i]) simp_all
  with handleSubmit_rejected2 [where ai = ai and s = s, OF rejected2] rejected2(1) one
  show ?thesis
    by (auto simp: submitted_nonblank resumed_def caught_eq)
next
  case (rejected3 I R e)
  have one: "Promise_all (generateContent ai 0
          (replicate 4 (initialRequest (messages s) q))) = Inr I"
    using rejected3(2,3) by (intro generateContent_fulfilled) simp_all
  have two: "Promise_all (generateContent ai 4
          (mapi (refinementRequest (messages s) q I) I)) = Inr R"
    using rejected3(2,4,5) by (intro generateContent_fulfilled) simp_all
  have three: "generateContent ai 8 [synthesizerRequest (messages s) q R] = [Inl e]"
    using rejected3(6) by (simp add: generateContent_def mapi_def)
  from handleSubmit_rejected3 [where ai = ai and s = s, OF rejected3] rejected3(1) one two three
  show ?thesis
    by (simp add: submitted_nonblank resumed_def caught_eq)
next
  case (completed I R S)
  have one: "Promise_all (generateContent ai 0
          (replicate 4 (initialRequest (messages s) q))) = Inr I"
    using completed(2,3) by (intro generateContent_fulfilled) simp_all
  have two: "Promise_all (generateContent ai 4
          (mapi (refinementRequest (messages s) q I) I)) = Inr R"
    using completed(2,4,5) by (intro generateContent_fulfilled) simp_all
  have three: "generateContent ai 8 [synthesizerRequest (messages s) q R] = [Inr S]"
    using completed(6) by (simp add: generateContent_def mapi_def)
  from handleSubmit_completed [where ai = ai and s = s, OF completed] completed(1) one two three
  show ?thesis
    by (simp add: submitted_nonblank resumed_def finished_def)
qed

lemma handler_by_steps:
  fixes c :: "'e constructed"
  shows "state (handleSubmit c s q) =
    (case submitted c s s q of
       (s, None) \<Rightarrow> s
     | (s, Some cl) \<Rightarrow>
        (case c of
           Inl e \<Rightarrow> s
         | Inr ai \<Rightarrow>
            (case resumed s cl (generateContent ai 0 (inFlight cl)) of
               (s, None) \<Rightarrow> s
             | (s, Some cl) \<Rightarrow>
                (case resumed s cl (generateContent ai 4 (inFlight cl)) of
                   (s, None) \<Rightarrow> s
                 | (s, Some cl) \<Rightarrow> fst (resumed s cl (generateContent ai 8 (inFlight cl)))))))"
proof (cases c)
  case (Inl e)
  then show ?thesis
    by (cases "trim q = []")
      (simp_all add: handleSubmit_blank submitted_blank handleSubmit_not_constructed
        submitted_not_constructed)
next
  case (Inr ai)
  then show ?thesis
    using handler_by_steps_constructed [of ai s q]
    by (simp split: prod.splits option.splits)
qed




section \<open>The example run\<close>

lemma example_nonblank: "trim (js ''Define entropy.'') \<noteq> []"
  by (simp add: trim_empty js_def isWhiteSpace_def)

lemma length_mockInitial: "length mockInitial = 4"
  by (simp add: mockInitial_def)

lemma length_mockRefined: "length mockRefined = 4"
  by (simp add: mockRefined_def)

lemma mock_step1: "k < 4 \<Longrightarrow> mock (mockInitial @ rest) k req = Inr (mockInitial ! k)"
  by (simp add: mock_def length_mockInitial nth_append)

lemma mock_step2:
  "i < 4 \<Longrightarrow> mock (mockInitial @ mockRefined @ rest) (4 + i) req = Inr (mockRefined ! i)"
  by (simp add: mock_def length_mockInitial length_mockRefined nth_append)

lemma mock_step3: "mock (mockInitial @ mockRefined @ [S]) 8 req = Inr S"
  by (simp add: mock_def length_mockInitial length_mockRefined nth_append)

lemma mock_exhausted: "mock texts (length texts + i) req = Inl ()"
  by (simp add: mock_def)

lemma example_step1:
  "\<forall>k<4. mock (mockInitial @ rest) k req = Inr (mockInitial ! k)"
  by (simp add: mock_step1)

lemma example_step2:
  "\<forall>i<4. mock (mockInitial @ mockRefined @ rest) (4 + i)
      (refinementRequest (messages earlier) (js ''Define entropy.'') mockInitial
        (mockInitial ! i) i) = Inr (mockRefined ! i)"
  by (simp add: mock_step2)

lemma example_run:
  "handleSubmit (Inr (mock (mockInitial @ mockRefined @ [js ''Final'']))) earlier
     (js ''Define entropy.'') =
   \<lparr>state = \<lparr>messages = messages earlier
                @ [\<lparr>role = User, parts = [\<lparr>text = js ''Define entropy.''\<rparr>]\<rparr>,
                   \<lparr>role = Model, parts = [\<lparr>text = js ''Final''\<rparr>]\<rparr>],
            isLoading = False, loadingStatus = js ''Synthesizing final response...''\<rparr>,
    issued = replicate 4 (initialRequest (messages earlier) (js ''Define entropy.''))
             @ mapi (refinementRequest (messages earlier) (js ''Define entropy.'') mockInitial)
                 mockInitial
             @ [synthesizerRequest (messages earlier) (js ''Define entropy.'') mockRefined],
    ending = Completed\<rparr>"
  by (intro handleSubmit_completed example_nonblank length_mockInitial length_mockRefined)
    (simp_all add: mock_step1 mock_step2 mock_step3)

lemma example_failed_run:
  "handleSubmit (Inr (mock (mockInitial @ [js ''R0'']))) earlier (js ''Define entropy.'') =
   \<lparr>state = \<lparr>messages = messages earlier
                @ [\<lparr>role = User, parts = [\<lparr>text = js ''Define entropy.''\<rparr>]\<rparr>,
                   \<lparr>role = Model, parts =
                     [\<lparr>text = js ''Sorry, I encountered an error. Please try again.''\<rparr>]\<rparr>],
            isLoading = False, loadingStatus = js ''Refining answers...''\<rparr>,
    issued = replicate 4 (initialRequest (messages earlier) (js ''Define entropy.''))
             @ mapi (refinementRequest (messages earlier) (js ''Define entropy.'') mockInitial)
                 mockInitial,
    ending = Caught ()\<rparr>"
proof -
  have "mock (mockInitial @ [js ''R0'']) (4 + 1)
      (refinementRequest (messages earlier) (js ''Define entropy.'') mockInitial
        (mockInitial ! 1) 1) = Inl ()"
    by (simp add: mock_def length_mockInitial)
  from handleSubmit_rejected2
    [where ai = "mock (mockInitial @ [js ''R0''])" and s = earlier and I = mockInitial
      and i = 1, OF example_nonblank length_mockInitial example_step1 _ this]
  show ?thesis by auto
qed

lemma mock_nonempty: "\<forall>t\<in>set texts. t \<noteq> [] \<Longrightarrow> mock texts k req = Inr t \<Longrightarrow> t \<noteq> []"
  by (auto simp: mock_def split: if_splits)

lemma example_texts_nonempty:
  "\<forall>k req t. mock (mockInitial @ mockRefined @ [js ''Final'']) k req = Inr t \<longrightarrow> t \<noteq> []"
proof -
  have "\<forall>t\<in>set (mockInitial @ mockRefined @ [js ''Final'']). t \<noteq> []"
    by (simp add: mockInitial_def mockRefined_def js_def)
  then show ?thesis using mock_nonempty by blast
qed

lemma mapi_upt: "mapi f xs = map (\<lambda>i. f (xs ! i) i) [0..<length xs]"
  by (rule nth_equalityI) simp_all

lemma take4_issued:
  fixes ai :: "'e client"
  assumes "trim q \<noteq> []"
  shows "take 4 (issued (handleSubmit (Inr ai) s q)) = replicate 4 (initialRequest (messages s) q)"
proof (cases rule: generateContent_cases
    [of "replicate 4 (initialRequest (messages s) q)" ai 0])
  case (rejected k e)
  then have "k < 4" "ai k (initialRequest (messages s) q) = Inl e" by simp_all
  from handleSubmit_rejected1 [where ai = ai and s = s, OF assms this]
  show ?thesis by auto
next
  case (fulfilled I)
  then have "length I = 4" "\<forall>k<4. ai k (initialRequest (messages s) q) = Inr (I ! k)"
    by simp_all
  from issued_after_step1 [where ai = ai and s = s, OF assms this]
  show ?thesis by auto
qed

lemma earlier_steps:
  fixes n k :: nat
  shows "n < 9 \<Longrightarrow> k < 4 * (n div 4) \<Longrightarrow> (4 \<le> n \<and> k < 4) \<or> (n = 8 \<and> 4 \<le> k \<and> k < 8)"
  by presburger

lemma calls_fulfilled:
  fixes ai :: "'e client"
  assumes "length I = 4"
    and "\<forall>k<4. ai k r1 = Inr (I ! k)"
    and "\<forall>i<4. ai (4 + i) (refinementRequest H q I (I ! i) i) = Inr (R ! i)"
    and "k < 8"
  shows "\<not> isl (ai k ((replicate 4 r1 @ mapi (refinementRequest H q I) I @ rest) ! k))"
proof (cases "k < 4")
  case True
  then show ?thesis using assms(2) by (simp add: nth_append)
next
  case False
  then have k: "k - 4 < 4" "k = 4 + (k - 4)" using assms(4) by arith+
  then have "(replicate 4 r1 @ mapi (refinementRequest H q I) I @ rest) ! k
      = refinementRequest H q I (I ! (k - 4)) (k - 4)"
    using False assms(1) by (simp add: nth_append)
  moreover have "ai (4 + (k - 4)) (refinementRequest H q I (I ! (k - 4)) (k - 4))
      = Inr (R ! (k - 4))"
    using k(1) assms(3) by blast
  ultimately show ?thesis using k(2) by simp
qed

section \<open>Blank input\<close>

text \<open>
  C9. When the submitted text is empty or has white space only, \<open>handleSubmit\<close> returns
  at once: the state, and with it the conversation history, is the one it started from,
  and no request has been made of the generation service.
\<close>

theorem blank_input_is_noop:
  assumes "\<forall>c\<in>set q. isWhiteSpace c"
  shows "handleSubmit (Inr ai) s q = \<lparr>state = s, issued = [], ending = Returned\<rparr>"
  using assms by (simp add: handleSubmit_blank trim_empty)

theorem blank_input_is_noop_witness:
  "isWhiteSpace 0x20 \<and> isWhiteSpace 0x9 \<and> isWhiteSpace 0xA0 \<and> isWhiteSpace 0x3000
   \<and> handleSubmit (Inr (mock [])) earlier [0x20, 0x9, 0xA0, 0x3000]
       = \<lparr>state = earlier, issued = [], ending = Returned\<rparr>"
proof -
  have blank: "\<forall>c\<in>set [0x20, 0x9, 0xA0, 0x3000]. isWhiteSpace c"
    by (simp add: isWhiteSpace_def)
  from blank blank_input_is_noop [OF blank] show ?thesis by simp
qed

section \<open>The prompts\<close>

text \<open>
  C1. In a run whose four initial calls are fulfilled with the answers \<open>I\<close>, the request
  of step 2 for agent \<open>i\<close> (the request number \<open>4 + i\<close> of the run) has a prompt that
  holds the text of \<open>I ! i\<close> after the words \<open>My initial response was\<close>, and after the
  words \<open>The other agents responded with\<close> the texts of the three other answers, those
  of the indices of \<open>0..3\<close> other than \<open>i\<close>, in ascending order, and no fourth.
\<close>

theorem refinement_prompt_own_then_others:
  fixes ai :: "'e client"
  assumes "trim q \<noteq> []" and "length I = 4"
    and "\<forall>k<4. ai k (initialRequest (messages s) q) = Inr (I ! k)"
    and "i < 4"
  shows "let others = map ((!) I) [j\<leftarrow>[0..<4]. j \<noteq> i] in
     length others = 3 \<and>
     issued (handleSubmit (Inr ai) s q) ! (4 + i) =
       \<lparr>model = MODEL_NAME,
        contents = messages s @ [\<lparr>role = User, parts = [\<lparr>text =
          q @ js ''\<newline>\<newline>---INTERNAL CONTEXT---\<newline>''
          @ js ''My initial response was: \"'' @ I ! i
          @ js ''\". The other agents responded with: 1. \"'' @ others ! 0
          @ js ''\" 2. \"'' @ others ! 1
          @ js ''\" 3. \"'' @ others ! 2
          @ js ''\". Based on this context, critically re-evaluate and provide a new, improved response to the original query.''\<rparr>]\<rparr>],
        systemInstruction = REFINEMENT_SYSTEM_INSTRUCTION\<rparr>"
proof -
  from issued_after_step1 [where ai = ai, OF assms(1-3)] obtain rest where
    "issued (handleSubmit (Inr ai) s q) = replicate 4 (initialRequest (messages s) q)
       @ mapi (refinementRequest (messages s) q I) I @ rest"
    by blast
  then have "issued (handleSubmit (Inr ai) s q) ! (4 + i)
      = refinementRequest (messages s) q I (I ! i) i"
    using assms(2,4) by (simp add: nth_append)
  then show ?thesis
    using assms(2,4)
    by (simp add: refinementRequest_eq refinementContext_eq length_others Let_def)
qed

theorem refinement_prompt_own_then_others_witness:
  "issued (handleSubmit (Inr (mock (mockInitial @ mockRefined @ [js ''Final'']))) earlier
      (js ''Define entropy.'')) ! 5 =
       \<lparr>model = MODEL_NAME,
        contents = messages earlier @ [\<lparr>role = User, parts = [\<lparr>text =
          js ''Define entropy.'' @ js ''\<newline>\<newline>---INTERNAL CONTEXT---\<newline>''
          @ js ''My initial response was: \"'' @ js ''I1''
          @ js ''\". The other agents responded with: 1. \"'' @ js ''I0''
          @ js ''\" 2. \"'' @ js ''I2''
          @ js ''\" 3. \"'' @ js ''I3''
          @ js ''\". Based on this context, critically re-evaluate and provide a new, improved response to the original query.''\<rparr>]\<rparr>],
        systemInstruction = REFINEMENT_SYSTEM_INSTRUCTION\<rparr>"
proof -
  have "\<forall>k<4. mock (mockInitial @ mockRefined @ [js ''Final'']) k
      (initialRequest (messages earlier) (js ''Define entropy.'')) = Inr (mockInitial ! k)"
    by (simp add: mock_step1)
  from refinement_prompt_own_then_others
    [where ai = "mock (mockInitial @ mockRefined @ [js ''Final''])" and s = earlier
      and q = "js ''Define entropy.''" and I = mockInitial and i = 1,
      OF example_nonblank length_mockInitial this]
  show ?thesis
    by (simp add: Let_def upt_0_4 mockInitial_def)
qed

text \<open>
  C4. When the client is constructed, step 1 of a run makes four requests, all equal: the
  same contents (the history and the user's turn with the query) and the same system
  instruction. When the four calls are fulfilled with the answers \<open>I\<close>, step 2 makes four
  requests, after which the run makes no request or the one of the synthesis. The prompt
  of the request for agent \<open>i\<close> holds the own answer \<open>I ! i\<close> and then, as the answers of
  the other agents, the answers of the indices of \<open>0..3\<close> other than \<open>i\<close>: three answers,
  never the one of index \<open>i\<close>. (When the constructor throws there is no step 1: the run
  makes no request, see \<open>handleSubmit_not_constructed\<close>.)
\<close>

theorem fan_out_requests:
  fixes ai :: "'e client"
  assumes "trim q \<noteq> []"
  shows "take 4 (issued (handleSubmit (Inr ai) s q)) =
      replicate 4 \<lparr>model = MODEL_NAME,
                   contents = messages s @ [\<lparr>role = User, parts = [\<lparr>text = q\<rparr>]\<rparr>],
                   systemInstruction = INITIAL_SYSTEM_INSTRUCTION\<rparr>
    \<and> (length I = 4 \<and> (\<forall>k<4. ai k (initialRequest (messages s) q) = Inr (I ! k)) \<longrightarrow>
         (\<exists>rest. (rest = [] \<or> (\<exists>R. rest = [synthesizerRequest (messages s) q R])) \<and>
            drop 4 (issued (handleSubmit (Inr ai) s q)) =
            map (\<lambda>i. \<lparr>model = MODEL_NAME,
                       contents = messages s @ [\<lparr>role = User, parts = [\<lparr>text =
                         q @ js ''\<newline>\<newline>---INTERNAL CONTEXT---\<newline>''
                         @ js ''My initial response was: \"'' @ I ! i
                         @ js ''\". The other agents responded with: 1. \"''
                         @ map ((!) I) [j\<leftarrow>[0..<4]. j \<noteq> i] ! 0
                         @ js ''\" 2. \"'' @ map ((!) I) [j\<leftarrow>[0..<4]. j \<noteq> i] ! 1
                         @ js ''\" 3. \"'' @ map ((!) I) [j\<leftarrow>[0..<4]. j \<noteq> i] ! 2
                         @ js ''\". Based on this context, critically re-evaluate and provide a new, improved response to the original query.''\<rparr>]\<rparr>],
                       systemInstruction = REFINEMENT_SYSTEM_INSTRUCTION\<rparr>) [0..<4]
            @ rest)
         \<and> (\<forall>i<4. filteri (\<lambda>_ j. j \<noteq> i) I = map ((!) I) [j\<leftarrow>[0..<4]. j \<noteq> i]
               \<and> length (filteri (\<lambda>_ j. j \<noteq> i) I) = 3
               \<and> i \<notin> set [j\<leftarrow>[0..<4]. j \<noteq> i]))"
proof (intro conjI impI)
  show "take 4 (issued (handleSubmit (Inr ai) s q)) =
      replicate 4 \<lparr>model = MODEL_NAME,
                   contents = messages s @ [\<lparr>role = User, parts = [\<lparr>text = q\<rparr>]\<rparr>],
                   systemInstruction = INITIAL_SYSTEM_INSTRUCTION\<rparr>"
    using take4_issued [OF assms, of ai s] by (simp add: initialRequest_def)
next
  assume I: "length I = 4 \<and> (\<forall>k<4. ai k (initialRequest (messages s) q) = Inr (I ! k))"
  then have "\<exists>rest. length rest \<le> 1
     \<and> (rest = [] \<or> (\<exists>R. rest = [synthesizerRequest (messages s) q R]))
     \<and> issued (handleSubmit (Inr ai) s q) =
     replicate 4 (initialRequest (messages s) q)
     @ mapi (refinementRequest (messages s) q I) I @ rest"
    using assms by (intro issued_after_step1) simp_all
  then obtain rest where rest: "rest = [] \<or> (\<exists>R. rest = [synthesizerRequest (messages s) q R])"
    and iss: "issued (handleSubmit (Inr ai) s q) =
      replicate 4 (initialRequest (messages s) q)
      @ mapi (refinementRequest (messages s) q I) I @ rest"
    by blast
  have each: "refinementRequest (messages s) q I (I ! i) i =
            \<lparr>model = MODEL_NAME,
                       contents = messages s @ [\<lparr>role = User, parts = [\<lparr>text =
                         q @ js ''\<newline>\<newline>---INTERNAL CONTEXT---\<newline>''
                         @ js ''My initial response was: \"'' @ I ! i
                         @ js ''\". The other agents responded with: 1. \"''
                         @ map ((!) I) [j\<leftarrow>[0..<4]. j \<noteq> i] ! 0
                         @ js ''\" 2. \"'' @ map ((!) I) [j\<leftarrow>[0..<4]. j \<noteq> i] ! 1
                         @ js ''\" 3. \"'' @ map ((!) I) [j\<leftarrow>[0..<4]. j \<noteq> i] ! 2
                         @ js ''\". Based on this context, critically re-evaluate and provide a new, improved response to the original query.''\<rparr>]\<rparr>],
                       systemInstruction = REFINEMENT_SYSTEM_INSTRUCTION\<rparr>"
    if "i < 4" for i
  proof -
    have len: "length [j\<leftarrow>[0..<4]. j \<noteq> i] = 3"
      using that by (rule length_others)
    then have "[j\<leftarrow>[0..<4]. j \<noteq> i] \<noteq> []" by auto
    with I len show ?thesis
      by (simp add: refinementRequest_def otherAnswers_eq refinementContext_def tpl_at Let_def)
  qed
  have "drop 4 (issued (handleSubmit (Inr ai) s q))
      = map (\<lambda>i. refinementRequest (messages s) q I (I ! i) i) [0..<4] @ rest"
    using I by (simp add: iss mapi_upt)
  also have "map (\<lambda>i. refinementRequest (messages s) q I (I ! i) i) [0..<4] =
            map (\<lambda>i. \<lparr>model = MODEL_NAME,
                       contents = messages s @ [\<lparr>role = User, parts = [\<lparr>text =
                         q @ js ''\<newline>\<newline>---INTERNAL CONTEXT---\<newline>''
                         @ js ''My initial response was: \"'' @ I ! i
                         @ js ''\". The other agents responded with: 1. \"''
                         @ map ((!) I) [j\<leftarrow>[0..<4]. j \<noteq> i] ! 0
                         @ js ''\" 2. \"'' @ map ((!) I) [j\<leftarrow>[0..<4]. j \<noteq> i] ! 1
                         @ js ''\" 3. \"'' @ map ((!) I) [j\<leftarrow>[0..<4]. j \<noteq> i] ! 2
                         @ js ''\". Based on this context, critically re-evaluate and provide a new, improved response to the original query.''\<rparr>]\<rparr>],
                       systemInstruction = REFINEMENT_SYSTEM_INSTRUCTION\<rparr>) [0..<4]"
    by (rule map_cong) (simp_all add: each)
  finally have "drop 4 (issued (handleSubmit (Inr ai) s q)) =
            map (\<lambda>i. \<lparr>model = MODEL_NAME,
                       contents = messages s @ [\<lparr>role = User, parts = [\<lparr>text =
                         q @ js ''\<newline>\<newline>---INTERNAL CONTEXT---\<newline>''
                         @ js ''My initial response was: \"'' @ I ! i
                         @ js ''\". The other agents responded with: 1. \"''
                         @ map ((!) I) [j\<leftarrow>[0..<4]. j \<noteq> i] ! 0
                         @ js ''\" 2. \"'' @ map ((!) I) [j\<leftarrow>[0..<4]. j \<noteq> i] ! 1
                         @ js ''\" 3. \"'' @ map ((!) I) [j\<leftarrow>[0..<4]. j \<noteq> i] ! 2
                         @ js ''\". Based on this context, critically re-evaluate and provide a new, improved response to the original query.''\<rparr>]\<rparr>],
                       systemInstruction = REFINEMENT_SYSTEM_INSTRUCTION\<rparr>) [0..<4]
            @ rest" .
  with rest show "\<exists>rest. (rest = [] \<or> (\<exists>R. rest = [synthesizerRequest (messages s) q R])) \<and>
            drop 4 (issued (handleSubmit (Inr ai) s q)) =
            map (\<lambda>i. \<lparr>model = MODEL_NAME,
                       contents = messages s @ [\<lparr>role = User, parts = [\<lparr>text =
                         q @ js ''\<newline>\<newline>---INTERNAL CONTEXT---\<newline>''
                         @ js ''My initial response was: \"'' @ I ! i
                         @ js ''\". The other agents responded with: 1. \"''
                         @ map ((!) I) [j\<leftarrow>[0..<4]. j \<noteq> i] ! 0
                         @ js ''\" 2. \"'' @ map ((!) I) [j\<leftarrow>[0..<4]. j \<noteq> i] ! 1
                         @ js ''\" 3. \"'' @ map ((!) I) [j\<leftarrow>[0..<4]. j \<noteq> i] ! 2
                         @ js ''\". Based on this context, critically re-evaluate and provide a new, improved response to the original query.''\<rparr>]\<rparr>],
                       systemInstruction = REFINEMENT_SYSTEM_INSTRUCTION\<rparr>) [0..<4]
            @ rest"
    by blast
  from I show "\<forall>i<4. filteri (\<lambda>_ j. j \<noteq> i) I = map ((!) I) [j\<leftarrow>[0..<4]. j \<noteq> i]
               \<and> length (filteri (\<lambda>_ j. j \<noteq> i) I) = 3
               \<and> i \<notin> set [j\<leftarrow>[0..<4]. j \<noteq> i]"
    by (simp add: otherAnswers_eq length_others)
qed

theorem fan_out_requests_witness:
  "take 4 (issued (handleSubmit (Inr (mock (mockInitial @ mockRefined @ [js ''Final''])))
      earlier (js ''Define entropy.'')))
     = replicate 4 \<lparr>model = MODEL_NAME,
                    contents = messages earlier
                      @ [\<lparr>role = User, parts = [\<lparr>text = js ''Define entropy.''\<rparr>]\<rparr>],
                    systemInstruction = INITIAL_SYSTEM_INSTRUCTION\<rparr>
   \<and> filteri (\<lambda>_ j. j \<noteq> 1) mockInitial = [js ''I0'', js ''I2'', js ''I3'']
   \<and> length (filteri (\<lambda>_ j. j \<noteq> 1) mockInitial) = 3
   \<and> (\<exists>rest. (rest = [] \<or> (\<exists>R. rest =
          [synthesizerRequest (messages earlier) (js ''Define entropy.'') R])) \<and>
        drop 4 (issued (handleSubmit (Inr (mock (mockInitial @ mockRefined @ [js ''Final''])))
          earlier (js ''Define entropy.''))) =
            map (\<lambda>i. \<lparr>model = MODEL_NAME,
                       contents = messages earlier @ [\<lparr>role = User, parts = [\<lparr>text =
                         js ''Define entropy.''
                         @ js ''\<newline>\<newline>---INTERNAL CONTEXT---\<newline>''
                         @ js ''My initial response was: \"'' @ mockInitial ! i
                         @ js ''\". The other agents responded with: 1. \"''
                         @ map ((!) mockInitial) [j\<leftarrow>[0..<4]. j \<noteq> i] ! 0
                         @ js ''\" 2. \"'' @ map ((!) mockInitial) [j\<leftarrow>[0..<4]. j \<noteq> i] ! 1
                         @ js ''\" 3. \"'' @ map ((!) mockInitial) [j\<leftarrow>[0..<4]. j \<noteq> i] ! 2
                         @ js ''\". Based on this context, critically re-evaluate and provide a new, improved response to the original query.''\<rparr>]\<rparr>],
                       systemInstruction = REFINEMENT_SYSTEM_INSTRUCTION\<rparr>) [0..<4]
            @ rest)"
proof -
  have one: "(1::nat) < 4" by simp
  have others: "map ((!) mockInitial) [j\<leftarrow>[0..<4]. j \<noteq> (1::nat)]
      = [js ''I0'', js ''I2'', js ''I3'']"
    by (simp add: upt_0_4 mockInitial_def)
  note inst = fan_out_requests
    [where ai = "mock (mockInitial @ mockRefined @ [js ''Final''])" and s = earlier
      and q = "js ''Define entropy.''" and I = mockInitial, OF example_nonblank]
  from inst length_mockInitial example_step1 [of "mockRefined @ [js ''Final'']"]
  have all: "\<forall>i<4. filteri (\<lambda>_ j. j \<noteq> i) mockInitial
        = map ((!) mockInitial) [j\<leftarrow>[0..<4]. j \<noteq> i]
      \<and> length (filteri (\<lambda>_ j. j \<noteq> i) mockInitial) = 3
      \<and> i \<notin> set [j\<leftarrow>[0..<4]. j \<noteq> i]"
    by blast
  from all one others
  have "filteri (\<lambda>_ j. j \<noteq> 1) mockInitial = [js ''I0'', js ''I2'', js ''I3'']"
    "length (filteri (\<lambda>_ j. j \<noteq> 1) mockInitial) = 3"
    by auto
  with inst length_mockInitial example_step1 [of "mockRefined @ [js ''Final'']"]
  show ?thesis by blast
qed

text \<open>
  C5. In a run whose calls of steps 1 and 2 are fulfilled, with the refined answers \<open>R\<close>
  from step 2, the ninth request is the synthesis request: its prompt holds the four
  texts \<open>R ! 0\<close>, \<open>R ! 1\<close>, \<open>R ! 2\<close>, \<open>R ! 3\<close> in this order, under the headings
  \<open>Refined Response 1\<close> to \<open>4\<close>. The prompt is built from the submitted text and \<open>R\<close>
  alone: the initial answers \<open>I\<close> have no place in it.
\<close>

theorem synthesis_prompt_embeds_refined:
  fixes ai :: "'e client"
  assumes "trim q \<noteq> []" and "length I = 4"
    and "\<forall>k<4. ai k (initialRequest (messages s) q) = Inr (I ! k)"
    and "length R = 4"
    and "\<forall>i<4. ai (4 + i) (refinementRequest (messages s) q I (I ! i) i) = Inr (R ! i)"
  shows "length (issued (handleSubmit (Inr ai) s q)) = 9 \<and>
     issued (handleSubmit (Inr ai) s q) ! 8 =
       \<lparr>model = MODEL_NAME,
        contents = messages s @ [\<lparr>role = User, parts = [\<lparr>text =
          q @ js ''\<newline>\<newline>---INTERNAL CONTEXT---\<newline>''
          @ js ''Here are the four refined responses to the user's query. Your task is to synthesize them into the best single, final answer.\<newline>\<newline>Refined Response 1:\<newline>\"''
          @ R ! 0
          @ js ''\"\<newline>\<newline>Refined Response 2:\<newline>\"'' @ R ! 1
          @ js ''\"\<newline>\<newline>Refined Response 3:\<newline>\"'' @ R ! 2
          @ js ''\"\<newline>\<newline>Refined Response 4:\<newline>\"'' @ R ! 3
          @ js ''\"''\<rparr>]\<rparr>],
        systemInstruction = SYNTHESIZER_SYSTEM_INSTRUCTION\<rparr>"
proof -
  have "issued (handleSubmit (Inr ai) s q) = replicate 4 (initialRequest (messages s) q)
      @ mapi (refinementRequest (messages s) q I) I
      @ [synthesizerRequest (messages s) q R]"
  proof (cases "ai 8 (synthesizerRequest (messages s) q R)")
    case (Inl e)
    from handleSubmit_rejected3 [where ai = ai and s = s, OF assms this] show ?thesis by simp
  next
    case (Inr S)
    from handleSubmit_completed [where ai = ai and s = s, OF assms this] show ?thesis by simp
  qed
  then show ?thesis
    using assms(2,4)
    by (simp add: nth_append synthesizerRequest_def synthesizerContext_eq)
qed

theorem synthesis_prompt_embeds_refined_witness:
  "issued (handleSubmit (Inr (mock (mockInitial @ mockRefined @ [js ''Final'']))) earlier
      (js ''Define entropy.'')) ! 8 =
       \<lparr>model = MODEL_NAME,
        contents = messages earlier @ [\<lparr>role = User, parts = [\<lparr>text =
          js ''Define entropy.'' @ js ''\<newline>\<newline>---INTERNAL CONTEXT---\<newline>''
          @ js ''Here are the four refined responses to the user's query. Your task is to synthesize them into the best single, final answer.\<newline>\<newline>Refined Response 1:\<newline>\"''
          @ js ''R0''
          @ js ''\"\<newline>\<newline>Refined Response 2:\<newline>\"'' @ js ''R1''
          @ js ''\"\<newline>\<newline>Refined Response 3:\<newline>\"'' @ js ''R2''
          @ js ''\"\<newline>\<newline>Refined Response 4:\<newline>\"'' @ js ''R3''
          @ js ''\"''\<rparr>]\<rparr>],
        systemInstruction = SYNTHESIZER_SYSTEM_INSTRUCTION\<rparr>"
  using synthesis_prompt_embeds_refined
    [where ai = "mock (mockInitial @ mockRefined @ [js ''Final''])" and s = earlier
      and q = "js ''Define entropy.''" and I = mockInitial and R = mockRefined,
      OF example_nonblank length_mockInitial example_step1 length_mockRefined example_step2]
  by (simp add: mockRefined_def)

section \<open>The contents of the requests\<close>

text \<open>
  C10. Every request that a run makes, in any of the three steps, has as its contents the
  messages that the state held when the handler was called (the turns before the query,
  as they are), followed by one turn of the user whose text starts with the submitted
  text. A run makes at most nine requests.
\<close>

theorem every_request_extends_history:
  fixes c :: "'e constructed"
  shows "(\<forall>req\<in>set (issued (handleSubmit c s q)).
            \<exists>t. contents req = messages s @ [\<lparr>role = User, parts = [\<lparr>text = q @ t\<rparr>]\<rparr>])
         \<and> length (issued (handleSubmit c s q)) \<le> 9"
proof (cases c)
  case (Inl e)
  then show ?thesis
    by (cases "trim q = []") (simp_all add: handleSubmit_blank handleSubmit_not_constructed)
next
  case (Inr ai)
  have "(\<forall>req\<in>set (issued (handleSubmit (Inr ai) s q)).
            \<exists>t. contents req = messages s @ [\<lparr>role = User, parts = [\<lparr>text = q @ t\<rparr>]\<rparr>])
         \<and> length (issued (handleSubmit (Inr ai) s q)) \<le> 9"
  proof (cases rule: handleSubmit_cases [where ai = ai and q = q and s = s])
    case blank
    then show ?thesis by (simp add: handleSubmit_blank)
  next
    case (rejected1 k e)
    from handleSubmit_rejected1 [where ai = ai and s = s and q = q, OF this] show ?thesis
      by (auto simp: initialRequest_def)
  next
    case (rejected2 I i e)
    from handleSubmit_rejected2 [where ai = ai and s = s and q = q, OF this] rejected2(2)
    show ?thesis
      by (auto simp: initialRequest_def refinementRequest_def mapi_def
          dest!: set_zip_leftD)
  next
    case (rejected3 I R e)
    from handleSubmit_rejected3 [where ai = ai and s = s and q = q, OF this] rejected3(2)
    show ?thesis
      by (auto simp: initialRequest_def refinementRequest_def synthesizerRequest_def mapi_def
          dest!: set_zip_leftD)
  next
    case (completed I R S)
    from handleSubmit_completed [where ai = ai and s = s and q = q, OF this] completed(2)
    show ?thesis
      by (auto simp: initialRequest_def refinementRequest_def synthesizerRequest_def mapi_def
          dest!: set_zip_leftD)
  qed
  then show ?thesis by (simp add: Inr)
qed

theorem every_request_extends_history_witness:
  "synthesizerRequest (messages earlier) (js ''Define entropy.'') mockRefined
     \<in> set (issued (handleSubmit (Inr (mock (mockInitial @ mockRefined @ [js ''Final''])))
                earlier (js ''Define entropy.'')))
   \<and> (\<exists>t. contents (synthesizerRequest (messages earlier) (js ''Define entropy.'') mockRefined)
         = messages earlier
           @ [\<lparr>role = User, parts = [\<lparr>text = js ''Define entropy.'' @ t\<rparr>]\<rparr>])"
proof -
  have "synthesizerRequest (messages earlier) (js ''Define entropy.'') mockRefined
     \<in> set (issued (handleSubmit (Inr (mock (mockInitial @ mockRefined @ [js ''Final''])))
                earlier (js ''Define entropy.'')))"
    by (simp add: example_run)
  with every_request_extends_history
    [of "Inr (mock (mockInitial @ mockRefined @ [js ''Final'']))" earlier
      "js ''Define entropy.''"]
  show ?thesis by blast
qed

section \<open>The order of the steps\<close>

text \<open>
  C6. The steps follow one another. When one of the four calls of step 1 is rejected, the
  requests of the run are the four of step 1 and no request of step 2 is made. When step
  1 is fulfilled and one of the four calls of step 2 is rejected, the requests of the run
  are those of steps 1 and 2 and the synthesis request is not made. In general the
  request number \<open>n\<close> of a run belongs to step \<open>n div 4\<close>, and it is made only when every
  call of the steps before (the calls of numbers below \<open>4 * (n div 4)\<close>) has been
  fulfilled.
\<close>

theorem steps_are_sequential:
  fixes ai :: "'e client"
  assumes "trim q \<noteq> []"
  shows "((\<exists>k<4. isl (ai k (initialRequest (messages s) q))) \<longrightarrow>
            issued (handleSubmit (Inr ai) s q) = replicate 4 (initialRequest (messages s) q))
    \<and> (length I = 4 \<and> (\<forall>k<4. ai k (initialRequest (messages s) q) = Inr (I ! k))
         \<and> (\<exists>i<4. isl (ai (4 + i) (refinementRequest (messages s) q I (I ! i) i))) \<longrightarrow>
            issued (handleSubmit (Inr ai) s q) = replicate 4 (initialRequest (messages s) q)
              @ mapi (refinementRequest (messages s) q I) I)
    \<and> (\<forall>n<length (issued (handleSubmit (Inr ai) s q)). \<forall>k<4 * (n div 4).
          \<not> isl (ai k (issued (handleSubmit (Inr ai) s q) ! k)))"
proof (intro conjI impI)
  assume "\<exists>k<4. isl (ai k (initialRequest (messages s) q))"
  then obtain k e where "k < 4" "ai k (initialRequest (messages s) q) = Inl e"
    by (auto simp: isl_def)
  from handleSubmit_rejected1 [where ai = ai and s = s, OF assms this]
  show "issued (handleSubmit (Inr ai) s q) = replicate 4 (initialRequest (messages s) q)"
    by auto
next
  assume "length I = 4 \<and> (\<forall>k<4. ai k (initialRequest (messages s) q) = Inr (I ! k))
     \<and> (\<exists>i<4. isl (ai (4 + i) (refinementRequest (messages s) q I (I ! i) i)))"
  then obtain i e where "length I = 4"
    "\<forall>k<4. ai k (initialRequest (messages s) q) = Inr (I ! k)"
    "i < 4" "ai (4 + i) (refinementRequest (messages s) q I (I ! i) i) = Inl e"
    by (auto simp: isl_def)
  from handleSubmit_rejected2 [where ai = ai and s = s, OF assms this]
  show "issued (handleSubmit (Inr ai) s q) = replicate 4 (initialRequest (messages s) q)
              @ mapi (refinementRequest (messages s) q I) I"
    by auto
next
  show "\<forall>n<length (issued (handleSubmit (Inr ai) s q)). \<forall>k<4 * (n div 4).
          \<not> isl (ai k (issued (handleSubmit (Inr ai) s q) ! k))"
  proof (cases rule: handleSubmit_cases [where ai = ai and q = q and s = s])
    case blank
    then show ?thesis by (simp add: handleSubmit_blank)
  next
    case (rejected1 k e)
    from handleSubmit_rejected1 [where ai = ai and s = s, OF this] show ?thesis
      by auto
  next
    case (rejected2 I i e)
    from handleSubmit_rejected2 [where ai = ai and s = s, OF this] rejected2(2,3)
    show ?thesis
      by (auto simp: nth_append dest!: earlier_steps [rotated])
  next
    case (rejected3 I R e)
    note run = handleSubmit_rejected3 [where ai = ai and s = s, OF this]
    show ?thesis
    proof (intro allI impI)
      fix n k
      assume "n < length (issued (handleSubmit (Inr ai) s q))" and "k < 4 * (n div 4)"
      then have "k < 8"
        using rejected3(2) earlier_steps [of n k] by (auto simp: run)
      from calls_fulfilled [where ai = ai, OF rejected3(2,3,5) this]
      show "\<not> isl (ai k (issued (handleSubmit (Inr ai) s q) ! k))"
        by (simp add: run)
    qed
  next
    case (completed I R S)
    note run = handleSubmit_completed [where ai = ai and s = s, OF this]
    show ?thesis
    proof (intro allI impI)
      fix n k
      assume "n < length (issued (handleSubmit (Inr ai) s q))" and "k < 4 * (n div 4)"
      then have "k < 8"
        using completed(2) earlier_steps [of n k] by (auto simp: run)
      from calls_fulfilled [where ai = ai, OF completed(2,3,5) this]
      show "\<not> isl (ai k (issued (handleSubmit (Inr ai) s q) ! k))"
        by (simp add: run)
    qed
  qed
qed

theorem steps_are_sequential_witness:
  "isl (mock [js ''I0''] 1 (initialRequest (messages earlier) (js ''Define entropy.'')))
   \<and> issued (handleSubmit (Inr (mock [js ''I0''])) earlier (js ''Define entropy.''))
       = replicate 4 (initialRequest (messages earlier) (js ''Define entropy.''))
   \<and> isl (mock (mockInitial @ [js ''R0'']) (4 + 1)
         (refinementRequest (messages earlier) (js ''Define entropy.'') mockInitial
           (mockInitial ! 1) 1))
   \<and> issued (handleSubmit (Inr (mock (mockInitial @ [js ''R0'']))) earlier (js ''Define entropy.''))
       = replicate 4 (initialRequest (messages earlier) (js ''Define entropy.''))
         @ mapi (refinementRequest (messages earlier) (js ''Define entropy.'') mockInitial)
             mockInitial
   \<and> \<not> isl (mock (mockInitial @ mockRefined @ [js ''Final'']) 5
         (issued (handleSubmit (Inr (mock (mockInitial @ mockRefined @ [js ''Final''])))
            earlier (js ''Define entropy.'')) ! 5))"
proof -
  have a: "isl (mock [js ''I0''] 1 (initialRequest (messages earlier) (js ''Define entropy.'')))"
    by (simp add: mock_def)
  have b: "isl (mock (mockInitial @ [js ''R0'']) (4 + 1)
         (refinementRequest (messages earlier) (js ''Define entropy.'') mockInitial
           (mockInitial ! 1) 1))"
    by (simp add: mock_def length_mockInitial)
  have n: "(8::nat) < length (issued (handleSubmit
      (Inr (mock (mockInitial @ mockRefined @ [js ''Final'']))) earlier (js ''Define entropy.'')))"
    by (simp add: example_run length_mockInitial)
  have k: "(5::nat) < 4 * (8 div 4)" by simp
  have one_lt_4: "(1::nat) < 4" by simp
  note first = steps_are_sequential [where ai = "mock [js ''I0'']" and s = earlier
      and q = "js ''Define entropy.''", OF example_nonblank]
  note second = steps_are_sequential [where ai = "mock (mockInitial @ [js ''R0''])"
      and s = earlier and q = "js ''Define entropy.''" and I = mockInitial,
      OF example_nonblank]
  note third = steps_are_sequential
      [where ai = "mock (mockInitial @ mockRefined @ [js ''Final''])"
      and s = earlier and q = "js ''Define entropy.''", OF example_nonblank]
  have "issued (handleSubmit (Inr (mock [js ''I0''])) earlier (js ''Define entropy.''))
       = replicate 4 (initialRequest (messages earlier) (js ''Define entropy.''))"
    using first a one_lt_4 by blast
  moreover have "issued (handleSubmit (Inr (mock (mockInitial @ [js ''R0'']))) earlier
        (js ''Define entropy.''))
       = replicate 4 (initialRequest (messages earlier) (js ''Define entropy.''))
         @ mapi (refinementRequest (messages earlier) (js ''Define entropy.'') mockInitial)
             mockInitial"
    using second b length_mockInitial example_step1 [of "[js ''R0'']"] one_lt_4
    by blast
  moreover have "\<not> isl (mock (mockInitial @ mockRefined @ [js ''Final'']) 5
         (issued (handleSubmit (Inr (mock (mockInitial @ mockRefined @ [js ''Final''])))
            earlier (js ''Define entropy.'')) ! 5))"
    using third n k by blast
  ultimately show ?thesis using a b by blast
qed

section \<open>The conversation history after a run\<close>

text \<open>
  C3. When the calls of step 1 return \<open>I ! 0\<close> to \<open>I ! 3\<close>, those of step 2 return
  \<open>R ! 0\<close> to \<open>R ! 3\<close> and the synthesis call returns \<open>S\<close>, the run reaches the end of
  the \<open>try\<close> block. The handler records the user's turn with the query when the run
  starts; to the history so extended the run appends exactly one turn, a turn of the model
  whose text is \<open>S\<close>. Whatever the texts \<open>I\<close> and \<open>R\<close> are, they are not written to the
  history.
\<close>

theorem completed_run_appends_final_text:
  fixes ai :: "'e client"
  assumes "trim q \<noteq> []" and "length I = 4"
    and "\<forall>k<4. ai k (initialRequest (messages s) q) = Inr (I ! k)"
    and "length R = 4"
    and "\<forall>i<4. ai (4 + i) (refinementRequest (messages s) q I (I ! i) i) = Inr (R ! i)"
    and "ai 8 (synthesizerRequest (messages s) q R) = Inr S"
  shows "ending (handleSubmit (Inr ai) s q) = Completed
    \<and> messages (state (handleSubmit (Inr ai) s q)) =
        messages s @ [\<lparr>role = User, parts = [\<lparr>text = q\<rparr>]\<rparr>,
                      \<lparr>role = Model, parts = [\<lparr>text = S\<rparr>]\<rparr>]"
  using handleSubmit_completed [where ai = ai and s = s, OF assms] by simp

theorem completed_run_appends_final_text_witness:
  "ending (handleSubmit (Inr (mock (mockInitial @ mockRefined @ [js ''Final'']))) earlier
      (js ''Define entropy.'')) = Completed
   \<and> messages (state (handleSubmit (Inr (mock (mockInitial @ mockRefined @ [js ''Final''])))
        earlier (js ''Define entropy.''))) =
       [\<lparr>role = User, parts = [\<lparr>text = js ''Hi''\<rparr>]\<rparr>,
        \<lparr>role = Model, parts = [\<lparr>text = js ''Hello''\<rparr>]\<rparr>,
        \<lparr>role = User, parts = [\<lparr>text = js ''Define entropy.''\<rparr>]\<rparr>,
        \<lparr>role = Model, parts = [\<lparr>text = js ''Final''\<rparr>]\<rparr>]"
  using completed_run_appends_final_text
    [where ai = "mock (mockInitial @ mockRefined @ [js ''Final''])" and s = earlier
      and q = "js ''Define entropy.''" and I = mockInitial and R = mockRefined
      and S = "js ''Final''",
      OF example_nonblank length_mockInitial example_step1 length_mockRefined example_step2
        mock_step3]
  by (simp add: earlier_def)

text \<open>
  C7. When a run reaches the end of the \<open>try\<close> block, the submitted text was not blank
  and the messages are those before the run, the user's turn, and exactly one turn of the
  model. The text of that turn is not empty provided the client never fulfils a call with
  an empty text; the handler itself does not look at the text.
\<close>

theorem completed_run_appends_one_agent_turn:
  fixes ai :: "'e client"
  assumes "ending (handleSubmit (Inr ai) s q) = Completed"
    and "\<forall>k req t. ai k req = Inr t \<longrightarrow> t \<noteq> []"
  shows "trim q \<noteq> [] \<and> (\<exists>t. t \<noteq> [] \<and> messages (state (handleSubmit (Inr ai) s q)) =
        messages s @ [\<lparr>role = User, parts = [\<lparr>text = q\<rparr>]\<rparr>,
                      \<lparr>role = Model, parts = [\<lparr>text = t\<rparr>]\<rparr>])"
proof (cases rule: handleSubmit_cases [where ai = ai and q = q and s = s])
  case blank
  then show ?thesis using assms(1) by (simp add: handleSubmit_blank)
next
  case (rejected1 k e)
  from handleSubmit_rejected1 [where ai = ai and s = s, OF this] assms(1)
  show ?thesis by auto
next
  case (rejected2 I i e)
  from handleSubmit_rejected2 [where ai = ai and s = s, OF this] assms(1)
  show ?thesis by auto
next
  case (rejected3 I R e)
  from handleSubmit_rejected3 [where ai = ai and s = s, OF this] assms(1)
  show ?thesis by auto
next
  case (completed I R S)
  from completed(6) assms(2) have "S \<noteq> []" by blast
  with handleSubmit_completed [where ai = ai and s = s, OF completed] completed(1)
  show ?thesis by simp
qed

theorem completed_run_appends_one_agent_turn_witness:
  "ending (handleSubmit (Inr (mock (mockInitial @ mockRefined @ [js ''Final'']))) earlier
      (js ''Define entropy.'')) = Completed
   \<and> (\<exists>t. t \<noteq> [] \<and>
        messages (state (handleSubmit (Inr (mock (mockInitial @ mockRefined @ [js ''Final''])))
          earlier (js ''Define entropy.''))) =
        messages earlier @ [\<lparr>role = User, parts = [\<lparr>text = js ''Define entropy.''\<rparr>]\<rparr>,
                            \<lparr>role = Model, parts = [\<lparr>text = t\<rparr>]\<rparr>])"
proof -
  have fin: "ending (handleSubmit (Inr (mock (mockInitial @ mockRefined @ [js ''Final''])))
      earlier (js ''Define entropy.'')) = Completed"
    by (simp add: example_run)
  from completed_run_appends_one_agent_turn [OF fin example_texts_nonempty] fin
  show ?thesis by blast
qed

text \<open>The proviso is needed: when the client fulfils the synthesis call with the empty
  text, the turn that is appended has the empty text.\<close>

lemma empty_final_text_is_appended:
  "messages (state (handleSubmit (Inr (mock (mockInitial @ mockRefined @ [[]]))) mounted
      (js ''Define entropy.''))) =
     [\<lparr>role = User, parts = [\<lparr>text = js ''Define entropy.''\<rparr>]\<rparr>,
      \<lparr>role = Model, parts = [\<lparr>text = []\<rparr>]\<rparr>]"
proof -
  have "\<forall>i<4. mock (mockInitial @ mockRefined @ [[]]) (4 + i)
      (refinementRequest (messages mounted) (js ''Define entropy.'') mockInitial
        (mockInitial ! i) i) = Inr (mockRefined ! i)"
    by (simp add: mock_step2)
  from handleSubmit_completed
    [where ai = "mock (mockInitial @ mockRefined @ [[]])" and s = mounted
      and I = mockInitial and R = mockRefined and S = "[]",
      OF example_nonblank length_mockInitial example_step1 length_mockRefined this mock_step3]
  show ?thesis by (simp add: mounted_def)
qed

text \<open>
  C2. The \<open>try\<close> block is the run of the three steps, the \<open>catch\<close> block what is done
  with its failure. A run in which one of the calls made is rejected leaves the \<open>try\<close>
  block by an exception, and what the \<open>catch\<close> block receives is the error of a rejected
  call and a state whose messages are the turns before the run and the user's turn: the
  \<open>try\<close> block has appended no turn, and no answer of step 1 or 2 and no other text of the
  run is in the history. The history after the run is that history and the one notice of
  the \<open>catch\<close> block, a fixed text.
\<close>

theorem failed_run_writes_no_answer:
  fixes ai :: "'e client"
  assumes "k < length (issued (handleSubmit (Inr ai) s q))"
    and "isl (ai k (issued (handleSubmit (Inr ai) s q) ! k))"
  shows "\<exists>e j st. j < length (issued (handleSubmit (Inr ai) s q))
      \<and> ai j (issued (handleSubmit (Inr ai) s q) ! j) = Inl e
      \<and> handleSubmit (Inr ai) s q = catch st (issued (handleSubmit (Inr ai) s q)) e
      \<and> messages st = messages s @ [\<lparr>role = User, parts = [\<lparr>text = q\<rparr>]\<rparr>]
      \<and> isLoading st
      \<and> messages (state (handleSubmit (Inr ai) s q)) =
          messages s @ [\<lparr>role = User, parts = [\<lparr>text = q\<rparr>]\<rparr>,
                        \<lparr>role = Model, parts =
                          [\<lparr>text = js ''Sorry, I encountered an error. Please try again.''\<rparr>]\<rparr>]"
proof (cases rule: handleSubmit_cases [where ai = ai and q = q and s = s])
  case blank
  then show ?thesis using assms(1) by (simp add: handleSubmit_blank)
next
  case (rejected1 k' e')
  from handleSubmit_rejected1 [where ai = ai and s = s, OF this]
  obtain e j where j: "j < 4" "ai j (initialRequest (messages s) q) = Inl e"
    and run: "handleSubmit (Inr ai) s q =
     \<lparr>state = \<lparr>messages = messages s @ [\<lparr>role = User, parts = [\<lparr>text = q\<rparr>]\<rparr>,
                \<lparr>role = Model, parts =
                  [\<lparr>text = js ''Sorry, I encountered an error. Please try again.''\<rparr>]\<rparr>],
              isLoading = False, loadingStatus = js ''Initializing agents...''\<rparr>,
      issued = replicate 4 (initialRequest (messages s) q), ending = Caught e\<rparr>"
    by blast
  let ?st = "\<lparr>messages = messages s @ [\<lparr>role = User, parts = [\<lparr>text = q\<rparr>]\<rparr>],
              isLoading = True, loadingStatus = js ''Initializing agents...''\<rparr>"
  have "j < length (issued (handleSubmit (Inr ai) s q))
      \<and> ai j (issued (handleSubmit (Inr ai) s q) ! j) = Inl e
      \<and> handleSubmit (Inr ai) s q = catch ?st (issued (handleSubmit (Inr ai) s q)) e
      \<and> messages ?st = messages s @ [\<lparr>role = User, parts = [\<lparr>text = q\<rparr>]\<rparr>]
      \<and> isLoading ?st
      \<and> messages (state (handleSubmit (Inr ai) s q)) =
          messages s @ [\<lparr>role = User, parts = [\<lparr>text = q\<rparr>]\<rparr>,
                        \<lparr>role = Model, parts =
                          [\<lparr>text = js ''Sorry, I encountered an error. Please try again.''\<rparr>]\<rparr>]"
    using j by (simp add: run catch_eq)
  then show ?thesis by blast
next
  case (rejected2 I i e')
  from handleSubmit_rejected2 [where ai = ai and s = s, OF this]
  obtain e j where j: "j < 4"
      "ai (4 + j) (refinementRequest (messages s) q I (I ! j) j) = Inl e"
    and run: "handleSubmit (Inr ai) s q =
     \<lparr>state = \<lparr>messages = messages s @ [\<lparr>role = User, parts = [\<lparr>text = q\<rparr>]\<rparr>,
                \<lparr>role = Model, parts =
                  [\<lparr>text = js ''Sorry, I encountered an error. Please try again.''\<rparr>]\<rparr>],
              isLoading = False, loadingStatus = js ''Refining answers...''\<rparr>,
      issued = replicate 4 (initialRequest (messages s) q)
               @ mapi (refinementRequest (messages s) q I) I,
      ending = Caught e\<rparr>"
    by blast
  let ?st = "\<lparr>messages = messages s @ [\<lparr>role = User, parts = [\<lparr>text = q\<rparr>]\<rparr>],
              isLoading = True, loadingStatus = js ''Refining answers...''\<rparr>"
  have "4 + j < length (issued (handleSubmit (Inr ai) s q))
      \<and> ai (4 + j) (issued (handleSubmit (Inr ai) s q) ! (4 + j)) = Inl e
      \<and> handleSubmit (Inr ai) s q = catch ?st (issued (handleSubmit (Inr ai) s q)) e
      \<and> messages ?st = messages s @ [\<lparr>role = User, parts = [\<lparr>text = q\<rparr>]\<rparr>]
      \<and> isLoading ?st
      \<and> messages (state (handleSubmit (Inr ai) s q)) =
          messages s @ [\<lparr>role = User, parts = [\<lparr>text = q\<rparr>]\<rparr>,
                        \<lparr>role = Model, parts =
                          [\<lparr>text = js ''Sorry, I encountered an error. Please try again.''\<rparr>]\<rparr>]"
    using j rejected2(2) by (simp add: run catch_eq nth_append)
  then show ?thesis by blast
next
  case (rejected3 I R e)
  note run = handleSubmit_rejected3 [where ai = ai and s = s, OF this]
  let ?st = "\<lparr>messages = messages s @ [\<lparr>role = User, parts = [\<lparr>text = q\<rparr>]\<rparr>],
              isLoading = True, loadingStatus = js ''Synthesizing final response...''\<rparr>"
  have "8 < length (issued (handleSubmit (Inr ai) s q))
      \<and> ai 8 (issued (handleSubmit (Inr ai) s q) ! 8) = Inl e
      \<and> handleSubmit (Inr ai) s q = catch ?st (issued (handleSubmit (Inr ai) s q)) e
      \<and> messages ?st = messages s @ [\<lparr>role = User, parts = [\<lparr>text = q\<rparr>]\<rparr>]
      \<and> isLoading ?st
      \<and> messages (state (handleSubmit (Inr ai) s q)) =
          messages s @ [\<lparr>role = User, parts = [\<lparr>text = q\<rparr>]\<rparr>,
                        \<lparr>role = Model, parts =
                          [\<lparr>text = js ''Sorry, I encountered an error. Please try again.''\<rparr>]\<rparr>]"
    using rejected3(2,6) by (simp add: run catch_eq nth_append)
  then show ?thesis by blast
next
  case (completed I R S)
  note run = handleSubmit_completed [where ai = ai and s = s, OF completed]
  have "k < 8 \<or> k = 8" using assms(1) completed(2) by (auto simp: run)
  then have False
  proof
    assume "k < 8"
    from calls_fulfilled [where ai = ai, OF completed(2,3,5) this] assms(2)
    show False by (simp add: run)
  next
    assume "k = 8"
    then show False using assms(2) completed(2,6) by (simp add: run nth_append)
  qed
  then show ?thesis ..
qed

theorem failed_run_writes_no_answer_witness:
  "isl (mock (mockInitial @ [js ''R0'']) 5
     (issued (handleSubmit (Inr (mock (mockInitial @ [js ''R0'']))) earlier
        (js ''Define entropy.'')) ! 5))
   \<and> (\<exists>j st. handleSubmit (Inr (mock (mockInitial @ [js ''R0'']))) earlier
          (js ''Define entropy.'')
        = catch st (issued (handleSubmit (Inr (mock (mockInitial @ [js ''R0''])))
            earlier (js ''Define entropy.''))) ()
      \<and> mock (mockInitial @ [js ''R0'']) j
          (issued (handleSubmit (Inr (mock (mockInitial @ [js ''R0'']))) earlier
             (js ''Define entropy.'')) ! j) = Inl ()
      \<and> messages st =
        [\<lparr>role = User, parts = [\<lparr>text = js ''Hi''\<rparr>]\<rparr>,
         \<lparr>role = Model, parts = [\<lparr>text = js ''Hello''\<rparr>]\<rparr>,
         \<lparr>role = User, parts = [\<lparr>text = js ''Define entropy.''\<rparr>]\<rparr>])
   \<and> messages (state (handleSubmit (Inr (mock (mockInitial @ [js ''R0'']))) earlier
        (js ''Define entropy.''))) =
       [\<lparr>role = User, parts = [\<lparr>text = js ''Hi''\<rparr>]\<rparr>,
        \<lparr>role = Model, parts = [\<lparr>text = js ''Hello''\<rparr>]\<rparr>,
        \<lparr>role = User, parts = [\<lparr>text = js ''Define entropy.''\<rparr>]\<rparr>,
        \<lparr>role = Model, parts =
          [\<lparr>text = js ''Sorry, I encountered an error. Please try again.''\<rparr>]\<rparr>]"
proof -
  have k: "5 < length (issued (handleSubmit (Inr (mock (mockInitial @ [js ''R0''])))
      earlier (js ''Define entropy.'')))"
    by (simp add: example_failed_run length_mockInitial)
  have rejected: "isl (mock (mockInitial @ [js ''R0'']) 5
     (issued (handleSubmit (Inr (mock (mockInitial @ [js ''R0'']))) earlier
        (js ''Define entropy.'')) ! 5))"
    by (simp add: mock_def length_mockInitial)
  have hist: "messages earlier @ [\<lparr>role = User, parts = [\<lparr>text = js ''Define entropy.''\<rparr>]\<rparr>]
      = [\<lparr>role = User, parts = [\<lparr>text = js ''Hi''\<rparr>]\<rparr>,
         \<lparr>role = Model, parts = [\<lparr>text = js ''Hello''\<rparr>]\<rparr>,
         \<lparr>role = User, parts = [\<lparr>text = js ''Define entropy.''\<rparr>]\<rparr>]"
    by (simp add: earlier_def)
  from failed_run_writes_no_answer [OF k rejected] rejected hist
  show ?thesis by (auto simp: earlier_def)
qed

section \<open>One run at a time\<close>




end
